theory Spec2Isabelle
  imports Complex_Main
begin

section \<open>Numbers, vectors and quaternions\<close>

text \<open>
  The simulation computes with JavaScript numbers. They are modelled as the real numbers:
  every value is finite and every operation exact; rounding, overflow and NaN are outside
  the model. \<open>Math.min\<close>, \<open>Math.max\<close>,
  \<open>Math.abs\<close>, \<open>Math.sign\<close>, \<open>Math.sqrt\<close>, \<open>Math.sin\<close> and \<open>Math.cos\<close> are
  \<^term>\<open>min\<close>, \<^term>\<open>max\<close>, \<^term>\<open>abs\<close>, \<^term>\<open>sgn\<close>, \<^term>\<open>sqrt\<close>, \<^term>\<open>sin\<close> and \<^term>\<open>cos\<close>
  on \<^typ>\<open>real\<close>.

  \<open>THREE.Vector3\<close>, \<open>THREE.Vector2\<close> and \<open>THREE.Quaternion\<close> belong to the three.js
  library; the operations the simulation calls are written out below as the library
  computes them. The library mutates the receiver; here every operation returns the new
  value (the simulation clones before it mutates).
\<close>

record vec3 =
  vx :: real
  vy :: real
  vz :: real

record vec2 =
  px :: real
  py :: real

record quat =
  qx :: real
  qy :: real
  qz :: real
  qw :: real

definition Vector3 :: "real \<Rightarrow> real \<Rightarrow> real \<Rightarrow> vec3" where
  "Vector3 a b c = \<lparr>vx = a, vy = b, vz = c\<rparr>"

definition Vector2 :: "real \<Rightarrow> real \<Rightarrow> vec2" where
  "Vector2 a b = \<lparr>px = a, py = b\<rparr>"

definition Quaternion :: "real \<Rightarrow> real \<Rightarrow> real \<Rightarrow> real \<Rightarrow> quat" where
  "Quaternion a b c d = \<lparr>qx = a, qy = b, qz = c, qw = d\<rparr>"

definition vadd :: "vec3 \<Rightarrow> vec3 \<Rightarrow> vec3" where
  "vadd a b = Vector3 (vx a + vx b) (vy a + vy b) (vz a + vz b)"

definition vsub :: "vec3 \<Rightarrow> vec3 \<Rightarrow> vec3" where
  "vsub a b = Vector3 (vx a - vx b) (vy a - vy b) (vz a - vz b)"

definition multiplyScalar :: "vec3 \<Rightarrow> real \<Rightarrow> vec3" where
  "multiplyScalar a s = Vector3 (vx a * s) (vy a * s) (vz a * s)"

definition divideScalar :: "vec3 \<Rightarrow> real \<Rightarrow> vec3" where
  "divideScalar a s = multiplyScalar a (1 / s)"

definition negate :: "vec3 \<Rightarrow> vec3" where
  "negate a = Vector3 (- vx a) (- vy a) (- vz a)"

definition dot :: "vec3 \<Rightarrow> vec3 \<Rightarrow> real" where
  "dot a b = vx a * vx b + vy a * vy b + vz a * vz b"

definition cross :: "vec3 \<Rightarrow> vec3 \<Rightarrow> vec3" where
  "cross a b =
     Vector3 (vy a * vz b - vz a * vy b) (vz a * vx b - vx a * vz b) (vx a * vy b - vy a * vx b)"

definition vlength :: "vec3 \<Rightarrow> real" where
  "vlength a = sqrt (vx a * vx a + vy a * vy a + vz a * vz a)"

text \<open>\<open>Vector3.normalize\<close> divides by \<open>this.length() || 1\<close>: a zero vector stays zero.\<close>

definition vnormalize :: "vec3 \<Rightarrow> vec3" where
  "vnormalize a = divideScalar a (if vlength a = 0 then 1 else vlength a)"

text \<open>
  \<open>Vector3.applyQuaternion\<close>: with \<open>t = 2 * cross(q.xyz, v)\<close> the result is
  \<open>v + q.w * t + cross(q.xyz, t)\<close>.
\<close>

definition applyQuaternion :: "vec3 \<Rightarrow> quat \<Rightarrow> vec3" where
  "applyQuaternion v q =
     (let tx = 2 * (qy q * vz v - qz q * vy v);
          ty = 2 * (qz q * vx v - qx q * vz v);
          tz = 2 * (qx q * vy v - qy q * vx v)
      in Vector3 (vx v + qw q * tx + qy q * tz - qz q * ty)
                 (vy v + qw q * ty + qz q * tx - qx q * tz)
                 (vz v + qw q * tz + qx q * ty - qy q * tx))"

definition distanceTo :: "vec2 \<Rightarrow> vec2 \<Rightarrow> real" where
  "distanceTo a b = sqrt ((px a - px b) * (px a - px b) + (py a - py b) * (py a - py b))"

definition qlength :: "quat \<Rightarrow> real" where
  "qlength q = sqrt (qx q * qx q + qy q * qy q + qz q * qz q + qw q * qw q)"

text \<open>\<open>Quaternion.normalize\<close>: a zero quaternion becomes the identity.\<close>

definition qnormalize :: "quat \<Rightarrow> quat" where
  "qnormalize q =
     (let l = qlength q
      in if l = 0 then Quaternion 0 0 0 1
         else Quaternion (qx q * (1 / l)) (qy q * (1 / l)) (qz q * (1 / l)) (qw q * (1 / l)))"

definition setFromAxisAngle :: "vec3 \<Rightarrow> real \<Rightarrow> quat" where
  "setFromAxisAngle axis angle =
     (let halfAngle = angle / 2; s = sin halfAngle
      in Quaternion (vx axis * s) (vy axis * s) (vz axis * s) (cos halfAngle))"

text \<open>\<open>a.multiply(b)\<close> is the Hamilton product \<open>a * b\<close>.\<close>

definition qmultiply :: "quat \<Rightarrow> quat \<Rightarrow> quat" where
  "qmultiply a b =
     Quaternion (qx a * qw b + qw a * qx b + qy a * qz b - qz a * qy b)
                (qy a * qw b + qw a * qy b + qz a * qx b - qx a * qz b)
                (qz a * qw b + qw a * qz b + qx a * qy b - qy a * qx b)
                (qw a * qw b - qx a * qx b - qy a * qy b - qz a * qz b)"

text \<open>
  \<open>Math.atan2(y, x)\<close> on the reals: the angle of the point \<open>(x, y)\<close> in \<open>(-pi, pi]\<close>,
  and 0 at the origin.
\<close>

definition atan2 :: "real \<Rightarrow> real \<Rightarrow> real" where
  "atan2 y x =
     (if 0 < x then arctan (y / x)
      else if x < 0 then (if 0 \<le> y then arctan (y / x) + pi else arctan (y / x) - pi)
      else if 0 < y then pi / 2
      else if y < 0 then - (pi / 2)
      else 0)"

section \<open>Constants (physics/constants.ts)\<close>

definition RHO :: real where "RHO = 1.225"
definition GRAVITY :: real where "GRAVITY = 9.81"
definition MASS :: real where "MASS = 420"
definition WING_AREA_S :: real where "WING_AREA_S = 16.0"

definition ALPHA_0 :: real where "ALPHA_0 = - 2 * (pi / 180)"
definition CL_ALPHA :: real where "CL_ALPHA = 5.5"
definition CL_MAX :: real where "CL_MAX = 1.2"
definition CL_MAX_NEG :: real where "CL_MAX_NEG = 0.9"
definition STALL_ALPHA_POS :: real where "STALL_ALPHA_POS = 12 * (pi / 180)"
definition STALL_ALPHA_NEG :: real where "STALL_ALPHA_NEG = - 10 * (pi / 180)"

definition CD_0 :: real where "CD_0 = 0.018"
definition K_DRAG :: real where "K_DRAG = 0.045"

definition SIDE_DRAG_FACTOR :: real where "SIDE_DRAG_FACTOR = 2.5"
definition ROLL_DAMP :: real where "ROLL_DAMP = 0.15"
definition PITCH_DAMP :: real where "PITCH_DAMP = 0.12"
definition YAW_DAMP :: real where "YAW_DAMP = 0.25"
definition WEATHERVANE_STRENGTH :: real where "WEATHERVANE_STRENGTH = 0.3"

definition MAX_ROLL_RATE :: real where "MAX_ROLL_RATE = 70 * (pi / 180)"
definition MAX_PITCH_RATE :: real where "MAX_PITCH_RATE = 35 * (pi / 180)"
definition MAX_YAW_RATE :: real where "MAX_YAW_RATE = 25 * (pi / 180)"
definition RUDDER_COORDINATION :: real where "RUDDER_COORDINATION = 0"

definition THERMAL_COUNT :: nat where "THERMAL_COUNT = 20"
definition THERMAL_CORE_RADIUS :: real where "THERMAL_CORE_RADIUS = 350"
definition THERMAL_OUTER_RADIUS :: real where "THERMAL_OUTER_RADIUS = 600"
definition THERMAL_W_MAX :: real where "THERMAL_W_MAX = 20"
definition THERMAL_W_MIN :: real where "THERMAL_W_MIN = 10"
definition THERMAL_DRIFT_FACTOR :: real where "THERMAL_DRIFT_FACTOR = 0.7"
definition WORLD_SIZE :: real where "WORLD_SIZE = 10000"

section \<open>Flight physics (physics/FlightPhysics.ts)\<close>

record GliderState =
  position :: vec3
  velocity :: vec3
  quaternion :: quat
  angularVelocity :: vec3

record ControlInput =
  pitch :: real
  roll :: real
  yaw :: real

record WindField =
  horizontal :: vec3
  vertical :: real

definition getForwardVector :: "quat \<Rightarrow> vec3" where
  "getForwardVector q = applyQuaternion (Vector3 0 0 1) q"

definition getUpVector :: "quat \<Rightarrow> vec3" where
  "getUpVector q = applyQuaternion (Vector3 0 1 0) q"

definition getRightVector :: "quat \<Rightarrow> vec3" where
  "getRightVector q = applyQuaternion (Vector3 1 0 0) q"

definition calculateAngleOfAttack :: "vec3 \<Rightarrow> quat \<Rightarrow> real" where
  "calculateAngleOfAttack v q =
     (let forward = getForwardVector q;
          up = getUpVector q;
          airspeed = vlength v
      in if airspeed < 0.1 then 0
         else (let velocityNorm = vnormalize v;
                   forwardComponent = dot velocityNorm forward;
                   upComponent = dot velocityNorm up
               in atan2 (- upComponent) forwardComponent))"

definition calculateCL :: "real \<Rightarrow> real" where
  "calculateCL alpha =
     (if alpha > STALL_ALPHA_POS then
        (let stallExcess = alpha - STALL_ALPHA_POS;
             postStallFactor = max 0.5 (1 - stallExcess * 3)
         in CL_MAX * postStallFactor)
      else if alpha < STALL_ALPHA_NEG then
        (let stallExcess = STALL_ALPHA_NEG - alpha;
             postStallFactor = max 0.5 (1 - stallExcess * 3)
         in - CL_MAX_NEG * postStallFactor)
      else (let cl = CL_ALPHA * (alpha - ALPHA_0)
            in max (- CL_MAX_NEG) (min CL_MAX cl)))"

definition calculateCD :: "real \<Rightarrow> real" where
  "calculateCD cl = CD_0 + K_DRAG * cl * cl"


record AeroForces =
  lift :: vec3
  drag :: vec3
  sideForce :: vec3

text \<open>
  The wind vector built three times in the source: a clone of the horizontal wind whose
  \<open>y\<close> component is increased by the vertical wind.
\<close>

definition windVector :: "WindField \<Rightarrow> vec3" where
  "windVector windField = (horizontal windField)\<lparr>vy := vy (horizontal windField) + vertical windField\<rparr>"

definition calculateAeroForces :: "vec3 \<Rightarrow> quat \<Rightarrow> WindField \<Rightarrow> AeroForces" where
  "calculateAeroForces v q windField =
     (let airVelocity = vsub v (windVector windField);
          airspeed = vlength airVelocity
      in if airspeed < 0.5
         then \<lparr>lift = Vector3 0 0 0, drag = Vector3 0 0 0, sideForce = Vector3 0 0 0\<rparr>
         else (let qdyn = 0.5 * RHO * airspeed * airspeed;
                   alpha = calculateAngleOfAttack airVelocity q;
                   cl = calculateCL alpha;
                   cd = calculateCD cl;
                   liftMag = qdyn * WING_AREA_S * cl;
                   dragMag = qdyn * WING_AREA_S * cd;
                   airVelocityNorm = vnormalize airVelocity;
                   liftDir = vnormalize (cross airVelocityNorm (getRightVector q));
                   dragDir = negate airVelocityNorm;
                   right = getRightVector q;
                   sideComponent = dot airVelocity right;
                   sideForceMag = qdyn * WING_AREA_S * \<bar>sideComponent\<bar> * 0.1 * SIDE_DRAG_FACTOR;
                   sideForceDir = multiplyScalar right (- sgn sideComponent)
               in \<lparr>lift = multiplyScalar liftDir liftMag,
                   drag = multiplyScalar dragDir dragMag,
                   sideForce = multiplyScalar sideForceDir sideForceMag\<rparr>))"

definition applyControlInputs :: "vec3 \<Rightarrow> ControlInput \<Rightarrow> real \<Rightarrow> vec3" where
  "applyControlInputs w controls deltaTime =
     (let targetRollRate = roll controls * MAX_ROLL_RATE;
          targetPitchRate = - pitch controls * MAX_PITCH_RATE;
          autoYaw = roll controls * MAX_YAW_RATE * RUDDER_COORDINATION;
          manualYaw = - yaw controls * MAX_YAW_RATE;
          targetYawRate = manualYaw + autoYaw;
          rollResponse = 5.0;
          pitchResponse = 4.0;
          yawResponse = 4.0
      in \<lparr>vx = vx w + (targetPitchRate - vx w) * pitchResponse * deltaTime,
          vy = vy w + (targetYawRate - vy w) * yawResponse * deltaTime,
          vz = vz w + (targetRollRate - vz w) * rollResponse * deltaTime\<rparr>)"

definition applyDamping :: "vec3 \<Rightarrow> real \<Rightarrow> vec3" where
  "applyDamping w deltaTime =
     \<lparr>vx = vx w * (1 - PITCH_DAMP * deltaTime * 10),
      vy = vy w * (1 - YAW_DAMP * deltaTime * 10),
      vz = vz w * (1 - ROLL_DAMP * deltaTime * 10)\<rparr>"

definition applyWeathervane :: "vec3 \<Rightarrow> vec3 \<Rightarrow> quat \<Rightarrow> real \<Rightarrow> vec3" where
  "applyWeathervane w v q deltaTime =
     (let airspeed = vlength v
      in if airspeed < 5 then w
         else (let velocityNorm = vnormalize v;
                   right = getRightVector q;
                   sideslip = dot velocityNorm right
               in if \<bar>sideslip\<bar> < 0.01 then w
                  else (let speedFactor = min 1 (airspeed / 30);
                            targetYawRate = - sideslip * WEATHERVANE_STRENGTH * speedFactor
                        in w\<lparr>vy := vy w + (targetYawRate - vy w) * deltaTime * 3\<rparr>)))"

text \<open>
  The main physics step, \<open>updatePhysics\<close>, is one function in the source. Its consecutive
  blocks are named here so that statements can refer to the values between them; the step
  itself composes them in the source's order.
\<close>

text \<open>Forces, acceleration and the new velocity (the source's \<open>newVelocity\<close>).\<close>

definition integrateVelocity :: "GliderState \<Rightarrow> WindField \<Rightarrow> real \<Rightarrow> vec3" where
  "integrateVelocity state windField dt =
     (let gravity = Vector3 0 (- GRAVITY * MASS) 0;
          aeroForces = calculateAeroForces (velocity state) (quaternion state) windField;
          totalForce = vadd (vadd (vadd (vadd (Vector3 0 0 0) gravity) (lift aeroForces))
                         (drag aeroForces)) (sideForce aeroForces);
          acceleration = divideScalar totalForce MASS
      in vadd (velocity state) (multiplyScalar acceleration dt))"

text \<open>The new position (the source's \<open>newPosition\<close>, before the ground check).\<close>

definition integratePosition :: "GliderState \<Rightarrow> vec3 \<Rightarrow> real \<Rightarrow> vec3" where
  "integratePosition state newVelocity dt = vadd (position state) (multiplyScalar newVelocity dt)"

text \<open>Controls, damping and weathervane, in this order.\<close>

definition controlledAngularVelocity ::
  "GliderState \<Rightarrow> ControlInput \<Rightarrow> vec3 \<Rightarrow> real \<Rightarrow> vec3" where
  "controlledAngularVelocity state controls newVelocity dt =
     applyWeathervane (applyDamping (applyControlInputs (angularVelocity state) controls dt) dt)
       newVelocity (quaternion state) dt"

text \<open>
  The angle of attack that both corrections use: the source subtracts the wind vector
  from \<open>state.velocity\<close>, the velocity the step was called with.
\<close>

definition stepAlpha :: "GliderState \<Rightarrow> WindField \<Rightarrow> real" where
  "stepAlpha state windField =
     (let fullWindVector = windVector windField;
          airVelocity = vsub (velocity state) fullWindVector
      in calculateAngleOfAttack airVelocity (quaternion state))"

definition pitchStability :: "real \<Rightarrow> ControlInput \<Rightarrow> real \<Rightarrow> vec3 \<Rightarrow> vec3" where
  "pitchStability alpha controls dt w =
     (let targetAlpha = 4 * (pi / 180);
          alphaError = alpha - targetAlpha
      in if \<bar>alphaError\<bar> > 2 * (pi / 180) \<and> \<bar>pitch controls\<bar> < 0.3
         then (let stabilityCorrection = alphaError * 0.5
               in w\<lparr>vx := vx w + stabilityCorrection * dt * 3\<rparr>)
         else w)"

definition stallNoseDrop :: "real \<Rightarrow> real \<Rightarrow> vec3 \<Rightarrow> vec3" where
  "stallNoseDrop alpha dt w =
     (if alpha > STALL_ALPHA_POS then
        (let stallSeverity = (alpha - STALL_ALPHA_POS) / (pi / 18);
             noseDropRate = 1.5 * min 1 stallSeverity
         in w\<lparr>vx := vx w + noseDropRate * dt * 5\<rparr>)
      else if alpha < STALL_ALPHA_NEG then
        (let stallSeverity = (STALL_ALPHA_NEG - alpha) / (pi / 18);
             noseUpRate = - 1.5 * min 1 stallSeverity
         in w\<lparr>vx := vx w + noseUpRate * dt * 5\<rparr>)
      else w)"

definition updateOrientation :: "quat \<Rightarrow> vec3 \<Rightarrow> real \<Rightarrow> quat" where
  "updateOrientation q w dt =
     (if vlength w > 0.0001 then
        (let localAngular = Vector3 (vx w) (vy w) (vz w);
             pitchQ = setFromAxisAngle (Vector3 1 0 0) (vx localAngular * dt);
             yawQ = setFromAxisAngle (Vector3 0 1 0) (vy localAngular * dt);
             rollQ = setFromAxisAngle (Vector3 0 0 1) (vz localAngular * dt)
         in qnormalize (qmultiply (qmultiply (qmultiply q pitchQ) yawQ) rollQ))
      else q)"

definition groundCollision :: "vec3 \<Rightarrow> vec3 \<Rightarrow> vec3 \<times> vec3" where
  "groundCollision newPosition newVelocity =
     (if vy newPosition < 5 then
        (if vy newVelocity < 0
         then (newPosition\<lparr>vy := 5\<rparr>,
               \<lparr>vx = vx newVelocity * 0.98, vy = 0, vz = vz newVelocity * 0.98\<rparr>)
         else (newPosition\<lparr>vy := 5\<rparr>, newVelocity))
      else (newPosition, newVelocity))"

definition updatePhysics :: "GliderState \<Rightarrow> ControlInput \<Rightarrow> WindField \<Rightarrow> real \<Rightarrow> GliderState" where
  "updatePhysics state controls windField deltaTime =
     (let dt = min deltaTime 0.05;
          newVelocity = integrateVelocity state windField dt;
          newPosition = integratePosition state newVelocity dt;
          w1 = controlledAngularVelocity state controls newVelocity dt;
          alpha = stepAlpha state windField;
          w2 = pitchStability alpha controls dt w1;
          w3 = stallNoseDrop alpha dt w2;
          newQuaternion = updateOrientation (quaternion state) w3 dt;
          grounded = groundCollision newPosition newVelocity
      in \<lparr>position = fst grounded, velocity = snd grounded,
          quaternion = newQuaternion, angularVelocity = w3\<rparr>)"

record Telemetry =
  airspeed :: real
  groundSpeed :: real
  altitude :: real
  verticalSpeed :: real
  heading :: real
  bankAngle :: real
  pitchAngle :: real
  angleOfAttack :: real
  isStalling :: bool

text \<open>
  The remainder operator \<open>%\<close> on numbers: the quotient is truncated towards zero, so the
  result has the sign of the dividend.
\<close>

definition jsrem :: "real \<Rightarrow> real \<Rightarrow> real" where
  "jsrem a b = a - b * of_int (if 0 \<le> a / b then \<lfloor>a / b\<rfloor> else \<lceil>a / b\<rceil>)"

text \<open>
  \<open>Math.asin\<close> is \<^term>\<open>arcsin\<close> on \<open>[-1, 1]\<close>; outside it the source yields NaN, which
  the reals do not have. No statement below depends on the bank or pitch angle.
\<close>

definition getTelemetry :: "GliderState \<Rightarrow> WindField \<Rightarrow> Telemetry" where
  "getTelemetry state windField =
     (let airVelocity = vsub (velocity state) (windVector windField);
          airspeed' = vlength airVelocity;
          forward = getForwardVector (quaternion state);
          right = getRightVector (quaternion state);
          heading' = atan2 (vx forward) (vz forward) * (180 / pi);
          bankAngle' = arcsin (vy right) * (180 / pi);
          pitchAngle' = arcsin (vy forward) * (180 / pi);
          alpha = calculateAngleOfAttack airVelocity (quaternion state);
          isStalling' = (alpha > STALL_ALPHA_POS \<or> alpha < STALL_ALPHA_NEG)
      in \<lparr>airspeed = airspeed',
          groundSpeed = sqrt ((vx (velocity state))\<^sup>2 + (vz (velocity state))\<^sup>2),
          altitude = vy (position state),
          verticalSpeed = vy (velocity state),
          heading = jsrem (heading' + 360) 360,
          bankAngle = bankAngle',
          pitchAngle = pitchAngle',
          angleOfAttack = alpha * (180 / pi),
          isStalling = isStalling'\<rparr>)"

section \<open>Thermal system\<close>

text \<open>
  \<open>Math.random\<close> is modelled by a sequence of draws \<open>rnd\<close> and the index of the next draw,
  which every function that draws returns advanced. A thermal's \<open>id\<close> is the string
  rendering of one draw; the model keeps the draw itself.
\<close>

record Thermal =
  ident :: real
  center :: vec2
  radius :: real
  strength :: real
  age :: real
  lifetime :: real

record ThermalSystemState =
  thermals :: "Thermal list"
  wind :: vec3
  time :: real

text \<open>
  The \<open>do ... while\<close> loop of \<open>createThermal\<close>: draw a center, count the attempt, and draw
  again while fewer than 10 attempts were made and some existing thermal is closer than
  twice the outer radius.
\<close>

function findCenter :: "(nat \<Rightarrow> real) \<Rightarrow> Thermal list \<Rightarrow> nat \<Rightarrow> nat \<Rightarrow> vec2 \<times> nat" where
  "findCenter rnd existingThermals attempts i =
     (if attempts + 1 < 10 \<and>
         list_ex (\<lambda>t. distanceTo (center t)
                    (Vector2 ((rnd i - 0.5) * WORLD_SIZE * 0.8) ((rnd (i + 1) - 0.5) * WORLD_SIZE * 0.8))
                  < THERMAL_OUTER_RADIUS * 2) existingThermals
      then findCenter rnd existingThermals (attempts + 1) (i + 2)
      else (Vector2 ((rnd i - 0.5) * WORLD_SIZE * 0.8) ((rnd (i + 1) - 0.5) * WORLD_SIZE * 0.8), i + 2))"
  by pat_completeness auto
termination
  by (relation "measure (\<lambda>(rnd, existingThermals, attempts, i). 10 - attempts)") auto

definition createThermal :: "(nat \<Rightarrow> real) \<Rightarrow> Thermal list \<Rightarrow> nat \<Rightarrow> Thermal \<times> nat" where
  "createThermal rnd existingThermals i =
     (let found = findCenter rnd existingThermals 0 i;
          j = snd found;
          strength' = THERMAL_W_MIN + rnd j * (THERMAL_W_MAX - THERMAL_W_MIN);
          radius' = THERMAL_CORE_RADIUS * (0.8 + rnd (j + 1) * 0.4)
      in (\<lparr>ident = rnd (j + 2), center = fst found, radius = radius', strength = strength',
            age = 0, lifetime = 180 + rnd (j + 3) * 300\<rparr>, j + 4))"

text \<open>The toroidal wrap of one coordinate: the two consecutive \<open>if\<close> statements.\<close>

definition wrapCoordinate :: "real \<Rightarrow> real" where
  "wrapCoordinate c =
     (let halfWorld = WORLD_SIZE / 2;
          c1 = (if c > halfWorld then c - WORLD_SIZE else c);
          c2 = (if c1 < - halfWorld then c1 + WORLD_SIZE else c1)
      in c2)"

text \<open>The \<open>for\<close> loop over the thermals: expired ones are skipped, the others drift and wrap.\<close>

fun driftThermals :: "real \<Rightarrow> real \<Rightarrow> real \<Rightarrow> Thermal list \<Rightarrow> Thermal list" where
  "driftThermals driftX driftZ deltaTime [] = []"
| "driftThermals driftX driftZ deltaTime (thermal # rest) =
     (let newAge = age thermal + deltaTime
      in if newAge > lifetime thermal then driftThermals driftX driftZ deltaTime rest
         else thermal\<lparr>center := Vector2 (wrapCoordinate (px (center thermal) + driftX))
                                         (wrapCoordinate (py (center thermal) + driftZ)),
                      age := newAge\<rparr>
              # driftThermals driftX driftZ deltaTime rest)"

text \<open>The \<open>while\<close> loop that spawns thermals until the list has \<open>THERMAL_COUNT\<close> of them.\<close>

function spawnThermals :: "(nat \<Rightarrow> real) \<Rightarrow> Thermal list \<Rightarrow> nat \<Rightarrow> Thermal list \<times> nat" where
  "spawnThermals rnd updatedThermals i =
     (if length updatedThermals < THERMAL_COUNT
      then spawnThermals rnd (updatedThermals @ [fst (createThermal rnd updatedThermals i)])
             (snd (createThermal rnd updatedThermals i))
      else (updatedThermals, i))"
  by pat_completeness auto
termination
  by (relation "measure (\<lambda>(rnd, updatedThermals, i). THERMAL_COUNT - length updatedThermals)") auto

definition updateThermalSystem ::
  "(nat \<Rightarrow> real) \<Rightarrow> nat \<Rightarrow> ThermalSystemState \<Rightarrow> real \<Rightarrow> ThermalSystemState \<times> nat" where
  "updateThermalSystem rnd i state deltaTime =
     (let newTime = time state + deltaTime;
          driftX = vx (wind state) * THERMAL_DRIFT_FACTOR * deltaTime;
          driftZ = vz (wind state) * THERMAL_DRIFT_FACTOR * deltaTime;
          updatedThermals = driftThermals driftX driftZ deltaTime (thermals state);
          spawned = spawnThermals rnd updatedThermals i
      in (\<lparr>thermals = fst spawned, wind = wind state, time = newTime\<rparr>, snd spawned))"

text \<open>A sequence of thermal updates, one per timestep of the list.\<close>

fun runThermalUpdates ::
  "(nat \<Rightarrow> real) \<Rightarrow> nat \<Rightarrow> ThermalSystemState \<Rightarrow> real list \<Rightarrow> ThermalSystemState" where
  "runThermalUpdates rnd i state [] = state"
| "runThermalUpdates rnd i state (deltaTime # rest) =
     runThermalUpdates rnd (snd (updateThermalSystem rnd i state deltaTime))
       (fst (updateThermalSystem rnd i state deltaTime)) rest"

section \<open>The angle of attack of the specification's corrections\<close>

text \<open>
  The specification describes the pitch-stability and stall corrections as using the
  angle of attack of the air-relative velocity after the velocity integration and the
  current orientation. This definition follows the specification's words; the step itself
  uses \<^term>\<open>stepAlpha\<close>.
\<close>

definition postIntegrationAlpha :: "GliderState \<Rightarrow> WindField \<Rightarrow> real \<Rightarrow> real" where
  "postIntegrationAlpha state windField deltaTime =
     (let dt = min deltaTime 0.05;
          newVelocity = integrateVelocity state windField dt
      in calculateAngleOfAttack (vsub newVelocity (windVector windField)) (quaternion state))"

section \<open>Example inputs\<close>

text \<open>The identity orientation, calm air, neutral controls and a glider at rest at 500 m.\<close>

definition identityQuaternion :: quat where
  "identityQuaternion = Quaternion 0 0 0 1"

definition calmWind :: WindField where
  "calmWind = \<lparr>horizontal = Vector3 0 0 0, vertical = 0\<rparr>"

definition neutralControls :: ControlInput where
  "neutralControls = \<lparr>pitch = 0, roll = 0, yaw = 0\<rparr>"

definition restState :: GliderState where
  "restState =
     \<lparr>position = Vector3 0 500 0, velocity = Vector3 0 0 0,
      quaternion = identityQuaternion, angularVelocity = Vector3 0 0 0\<rparr>"

text \<open>
  A level glider whose velocity has unit length and points \<open>a\<close> radians below the nose:
  in calm air its angle of attack is \<open>a\<close>.
\<close>

definition telemetryExample :: "real \<Rightarrow> GliderState" where
  "telemetryExample a =
     \<lparr>position = Vector3 0 500 0, velocity = Vector3 0 (- sin a) (cos a),
      quaternion = identityQuaternion, angularVelocity = Vector3 0 0 0\<rparr>"

text \<open>
  A glider at altitude 3 m descending at 5 m/s with horizontal velocity \<open>(3, 4)\<close>, in air
  that moves with it, so that no aerodynamic force acts.
\<close>

definition groundExample :: GliderState where
  "groundExample =
     \<lparr>position = Vector3 0 3 0, velocity = Vector3 3 (- 5) 4,
      quaternion = identityQuaternion, angularVelocity = Vector3 0 0 0\<rparr>"

definition followingWind :: WindField where
  "followingWind = \<lparr>horizontal = Vector3 3 0 4, vertical = - 5\<rparr>"

text \<open>
  A level glider at altitude 3 m descending at 5 m/s with forward speed \<open>v\<close>, in air
  that sinks at 5 m/s: the air meets it head-on at speed \<open>v\<close>.
\<close>

definition diveExample :: "real \<Rightarrow> GliderState" where
  "diveExample v =
     \<lparr>position = Vector3 0 3 0, velocity = Vector3 0 (- 5) v,
      quaternion = identityQuaternion, angularVelocity = Vector3 0 0 0\<rparr>"

definition sinkingAir :: WindField where
  "sinkingAir = \<lparr>horizontal = Vector3 0 0 0, vertical = - 5\<rparr>"

text \<open>
  Thermal populations: 21 young thermals, none at all, and a single thermal 6 m inside
  the world's corner in a wind that carries it 7 m across both edges in one second. The
  draws are all 0.
\<close>

definition youngThermal :: Thermal where
  "youngThermal =
     \<lparr>ident = 0, center = Vector2 0 0, radius = 350, strength = 15, age = 0, lifetime = 300\<rparr>"

definition crowdedSystem :: ThermalSystemState where
  "crowdedSystem = \<lparr>thermals = replicate 21 youngThermal, wind = Vector3 0 0 0, time = 0\<rparr>"

definition emptySystem :: ThermalSystemState where
  "emptySystem = \<lparr>thermals = [], wind = Vector3 0 0 0, time = 0\<rparr>"

definition zeroDraws :: "nat \<Rightarrow> real" where
  "zeroDraws n = 0"

definition edgeThermal :: Thermal where
  "edgeThermal =
     \<lparr>ident = 0, center = Vector2 4994 (- 4994), radius = 350, strength = 15, age = 0, lifetime = 300\<rparr>"

definition windySystem :: ThermalSystemState where
  "windySystem = \<lparr>thermals = [edgeThermal], wind = Vector3 10 0 (- 10), time = 0\<rparr>"

section \<open>Auxiliary facts\<close>

lemma arctan_less_self: assumes "0 < x" shows "arctan x < x"
proof -
  have "\<exists>z. 0 < z \<and> z < x \<and> (x - arctan x) - (0 - arctan 0) = (x - 0) * (1 - inverse (1 + z\<^sup>2))"
    by (rule MVT2[OF assms]) (auto intro!: derivative_eq_intros)
  then obtain z where z: "0 < z" "z < x" "x - arctan x = x * (1 - inverse (1 + z\<^sup>2))"
    by auto
  have "inverse (1 + z\<^sup>2) < 1" using z(1)
    by (simp add: inverse_less_1_iff add_pos_pos)
  then have "0 < x * (1 - inverse (1 + z\<^sup>2))" using assms by simp
  then show ?thesis using z(3) by linarith
qed

lemma pi_upper: "pi < 16 / 5"
proof -
  have a: "arctan (1/5) < 1/5" by (rule arctan_less_self) simp
  have b: "0 < arctan (1/239)" by simp
  have "pi / 4 = 4 * arctan (1 / 5) - arctan (1/239)" by (rule machin)
  then show ?thesis using a b by linarith
qed

lemma pi_lower: "3 \<le> pi"
proof -
  have "sin (pi/6) \<le> pi/6" by (rule sin_x_le_x) simp
  then show ?thesis by (simp add: sin_30)
qed

lemma stall_order: "STALL_ALPHA_NEG < 0 \<and> 0 < STALL_ALPHA_POS"
  using pi_gt_zero unfolding STALL_ALPHA_NEG_def STALL_ALPHA_POS_def by simp

lemma calculateCL_pos_stall:
  assumes "alpha > STALL_ALPHA_POS"
  shows "calculateCL alpha = CL_MAX * max 0.5 (1 - (alpha - STALL_ALPHA_POS) * 3)"
  using assms by (simp add: calculateCL_def Let_def)

lemma calculateCL_neg_stall:
  assumes "alpha < STALL_ALPHA_NEG"
  shows "calculateCL alpha = - CL_MAX_NEG * max 0.5 (1 - (STALL_ALPHA_NEG - alpha) * 3)"
proof -
  have "\<not> alpha > STALL_ALPHA_POS" using assms stall_order by linarith
  then show ?thesis using assms by (simp add: calculateCL_def Let_def)
qed

lemma calculateCL_linear:
  assumes "\<not> alpha > STALL_ALPHA_POS" "\<not> alpha < STALL_ALPHA_NEG"
  shows "calculateCL alpha = max (- CL_MAX_NEG) (min CL_MAX (CL_ALPHA * (alpha - ALPHA_0)))"
  using assms by (simp add: calculateCL_def Let_def)

lemma taper_factor_bounds:
  fixes e :: real
  shows "1 / 2 \<le> max 0.5 (1 - e * 3)" and "0 < e \<Longrightarrow> max 0.5 (1 - e * 3) \<le> 1"
  unfolding max_def by auto

section \<open>The lift curve\<close>

text \<open>
  C9. For every angle of attack the lift coefficient lies in \<open>[-CL_MAX_NEG, CL_MAX]\<close>, that
  is in \<open>[-0.9, 1.2]\<close>. Beyond the positive stall angle it lies between half of \<open>CL_MAX\<close>
  and \<open>CL_MAX\<close>; below the negative stall angle it lies between \<open>-CL_MAX_NEG\<close> and half
  of \<open>-CL_MAX_NEG\<close>.
\<close>

theorem calculateCL_range:
  "- CL_MAX_NEG \<le> calculateCL alpha \<and> calculateCL alpha \<le> CL_MAX \<and>
   - CL_MAX_NEG = - 0.9 \<and> CL_MAX = 1.2 \<and>
   (alpha > STALL_ALPHA_POS \<longrightarrow>
      0.5 * CL_MAX \<le> calculateCL alpha \<and> calculateCL alpha \<le> CL_MAX) \<and>
   (alpha < STALL_ALPHA_NEG \<longrightarrow>
      - CL_MAX_NEG \<le> calculateCL alpha \<and> calculateCL alpha \<le> - (0.5 * CL_MAX_NEG))"
proof -
  have pos: "0.5 * CL_MAX \<le> calculateCL alpha \<and> calculateCL alpha \<le> CL_MAX"
    if "alpha > STALL_ALPHA_POS"
  proof -
    define f where "f = max 0.5 (1 - (alpha - STALL_ALPHA_POS) * 3)"
    have "1 / 2 \<le> f" "f \<le> 1"
      using that taper_factor_bounds[of "alpha - STALL_ALPHA_POS"] by (simp_all add: f_def)
    moreover have "calculateCL alpha = 12 / 10 * f"
      using calculateCL_pos_stall[OF that] by (simp add: f_def CL_MAX_def)
    moreover have "CL_MAX = 12 / 10" by (simp add: CL_MAX_def)
    ultimately show ?thesis by simp
  qed
  have neg: "- CL_MAX_NEG \<le> calculateCL alpha \<and> calculateCL alpha \<le> - (0.5 * CL_MAX_NEG)"
    if "alpha < STALL_ALPHA_NEG"
  proof -
    define f where "f = max 0.5 (1 - (STALL_ALPHA_NEG - alpha) * 3)"
    have "1 / 2 \<le> f" "f \<le> 1"
      using that taper_factor_bounds[of "STALL_ALPHA_NEG - alpha"] by (simp_all add: f_def)
    moreover have "calculateCL alpha = - (9 / 10) * f"
      using calculateCL_neg_stall[OF that] by (simp add: f_def CL_MAX_NEG_def)
    moreover have "CL_MAX_NEG = 9 / 10" by (simp add: CL_MAX_NEG_def)
    ultimately show ?thesis by simp
  qed
  have lin: "- CL_MAX_NEG \<le> calculateCL alpha \<and> calculateCL alpha \<le> CL_MAX"
    if "\<not> alpha > STALL_ALPHA_POS" "\<not> alpha < STALL_ALPHA_NEG"
    unfolding calculateCL_linear[OF that] by (simp add: CL_MAX_NEG_def CL_MAX_def)
  have vals: "- CL_MAX_NEG = - 0.9" "CL_MAX = 1.2"
    by (simp_all add: CL_MAX_NEG_def CL_MAX_def)
  have all: "- CL_MAX_NEG \<le> calculateCL alpha \<and> calculateCL alpha \<le> CL_MAX"
  proof (cases "alpha > STALL_ALPHA_POS")
    case True
    then show ?thesis using pos vals by simp
  next
    case False
    show ?thesis
    proof (cases "alpha < STALL_ALPHA_NEG")
      case True
      then show ?thesis using neg vals by simp
    next
      case n: False
      show ?thesis using lin[OF False n] .
    qed
  qed
  show ?thesis using all pos neg vals by blast
qed

theorem calculateCL_range_witness:
  "pi / 2 > STALL_ALPHA_POS \<and> 0.5 * CL_MAX \<le> calculateCL (pi / 2) \<and> calculateCL (pi / 2) \<le> CL_MAX
   \<and> - (pi / 2) < STALL_ALPHA_NEG \<and> - CL_MAX_NEG \<le> calculateCL (- (pi / 2))
   \<and> calculateCL (- (pi / 2)) \<le> - (0.5 * CL_MAX_NEG)"
proof -
  have a: "pi / 2 > STALL_ALPHA_POS" using pi_gt_zero by (simp add: STALL_ALPHA_POS_def)
  have b: "- (pi / 2) < STALL_ALPHA_NEG" using pi_gt_zero by (simp add: STALL_ALPHA_NEG_def)
  show ?thesis using a b calculateCL_range[of "pi / 2"] calculateCL_range[of "- (pi / 2)"] by blast
qed

lemma calculateCL_at_neg_stall: "calculateCL STALL_ALPHA_NEG = - (11 * pi / 45)"
proof -
  have "calculateCL STALL_ALPHA_NEG
      = max (- CL_MAX_NEG) (min CL_MAX (CL_ALPHA * (STALL_ALPHA_NEG - ALPHA_0)))"
    using stall_order by (intro calculateCL_linear) auto
  also have "CL_ALPHA * (STALL_ALPHA_NEG - ALPHA_0) = - (11 * pi / 45)"
    by (simp add: CL_ALPHA_def STALL_ALPHA_NEG_def ALPHA_0_def)
  also have "max (- CL_MAX_NEG) (min CL_MAX (- (11 * pi / 45))) = - (11 * pi / 45)"
    using pi_upper pi_lower by (simp add: CL_MAX_NEG_def CL_MAX_def max_def min_def)
  finally show ?thesis .
qed

lemma calculateCL_left_limit_neg_stall:
  "(calculateCL \<longlongrightarrow> - CL_MAX_NEG) (at_left STALL_ALPHA_NEG)"
proof -
  let ?g = "\<lambda>x. - CL_MAX_NEG * max 0.5 (1 - (STALL_ALPHA_NEG - x) * 3)"
  have "(?g \<longlongrightarrow> ?g STALL_ALPHA_NEG) (at_left STALL_ALPHA_NEG)"
    by (intro tendsto_intros tendsto_max)
  then have g: "(?g \<longlongrightarrow> - CL_MAX_NEG) (at_left STALL_ALPHA_NEG)" by simp
  have "eventually (\<lambda>x. x \<in> {STALL_ALPHA_NEG - 1<..<STALL_ALPHA_NEG}) (at_left STALL_ALPHA_NEG)"
    by (rule eventually_at_left_real) simp
  then have "eventually (\<lambda>x. calculateCL x = ?g x) (at_left STALL_ALPHA_NEG)"
    by (rule eventually_mono) (simp add: calculateCL_neg_stall)
  then show ?thesis using g by (simp add: tendsto_cong)
qed

lemma calculateCL_gap_neg_stall: "- (11 * pi / 45) - (- CL_MAX_NEG) > 1 / 10"
  using pi_upper by (simp add: CL_MAX_NEG_def)

lemma calculateCL_not_cont_neg_stall: "\<not> isCont calculateCL STALL_ALPHA_NEG"
proof
  assume "isCont calculateCL STALL_ALPHA_NEG"
  then have "(calculateCL \<longlongrightarrow> calculateCL STALL_ALPHA_NEG) (at STALL_ALPHA_NEG)"
    by (simp add: isCont_def)
  then have "(calculateCL \<longlongrightarrow> calculateCL STALL_ALPHA_NEG) (at_left STALL_ALPHA_NEG)"
    by (rule filterlim_mono) (simp_all add: at_le)
  then have "calculateCL STALL_ALPHA_NEG = - CL_MAX_NEG"
    using calculateCL_left_limit_neg_stall tendsto_unique trivial_limit_at_left_real by blast
  then show False using calculateCL_gap_neg_stall calculateCL_at_neg_stall by simp
qed

lemma calculateCL_cont_pos_stall: "isCont calculateCL STALL_ALPHA_POS"
proof -
  let ?g = "\<lambda>x. CL_MAX * max 0.5 (1 - max 0 (x - STALL_ALPHA_POS) * 3)"
  have gc: "isCont ?g STALL_ALPHA_POS"
    by (intro continuous_intros)
  have thr: "STALL_ALPHA_POS - 1 / 100 < STALL_ALPHA_POS" by simp
  have "eventually (\<lambda>x. x \<in> {STALL_ALPHA_POS - 1 / 100 <..< STALL_ALPHA_POS + 1}) (nhds STALL_ALPHA_POS)"
    by (rule eventually_nhds_in_open) auto
  moreover have "calculateCL x = ?g x" if "x \<in> {STALL_ALPHA_POS - 1 / 100 <..< STALL_ALPHA_POS + 1}" for x
  proof (cases "x > STALL_ALPHA_POS")
    case True
    then show ?thesis by (simp add: calculateCL_pos_stall max_def)
  next
    case False
    have lo: "STALL_ALPHA_POS - 1 / 100 < x" using that by simp
    have "\<not> x < STALL_ALPHA_NEG"
      using lo pi_lower by (simp add: STALL_ALPHA_NEG_def STALL_ALPHA_POS_def)
    then have "calculateCL x = max (- CL_MAX_NEG) (min CL_MAX (CL_ALPHA * (x - ALPHA_0)))"
      using False by (intro calculateCL_linear) auto
    moreover have "CL_MAX \<le> CL_ALPHA * (x - ALPHA_0)"
      using lo pi_lower by (simp add: CL_MAX_def CL_ALPHA_def ALPHA_0_def STALL_ALPHA_POS_def)
    ultimately have "calculateCL x = CL_MAX"
      by (simp add: CL_MAX_def CL_MAX_NEG_def)
    then show ?thesis using False by simp
  qed
  ultimately have ev: "eventually (\<lambda>x. calculateCL x = ?g x) (nhds STALL_ALPHA_POS)"
    by (simp add: eventually_mono)
  show ?thesis using gc by (simp only: isCont_cong[OF ev])
qed

lemma calculateCL_just_below_neg_stall: "calculateCL (- 10.0001 * (pi / 180)) < - (89 / 100)"
proof -
  have below: "- 10.0001 * (pi / 180) < STALL_ALPHA_NEG"
    using pi_lower by (simp add: STALL_ALPHA_NEG_def)
  have excess: "STALL_ALPHA_NEG - - 10.0001 * (pi / 180) = pi / 1800000"
    by (simp add: STALL_ALPHA_NEG_def)
  have "calculateCL (- 10.0001 * (pi / 180))
      = - CL_MAX_NEG * max 0.5 (1 - (STALL_ALPHA_NEG - - 10.0001 * (pi / 180)) * 3)"
    using below by (rule calculateCL_neg_stall)
  also have "\<dots> = - CL_MAX_NEG * max 0.5 (1 - pi / 1800000 * 3)"
    unfolding excess ..
  also have "max 0.5 (1 - pi / 1800000 * 3) = 1 - pi / 600000"
    using pi_upper by (simp add: max_def)
  finally have "calculateCL (- 10.0001 * (pi / 180)) = - CL_MAX_NEG * (1 - pi / 600000)" .
  then show ?thesis using pi_upper by (simp add: CL_MAX_NEG_def)
qed

text \<open>
  C1. Continuity of the lift coefficient at the two stall angles. At the positive stall
  angle the clamped linear branch and the taper meet at \<open>CL_MAX\<close>: the function is
  continuous there. At the negative stall angle, -10 degrees, the linear branch gives
  \<open>-11 pi / 45\<close> (about \<open>-0.768\<close>, inside the clamp, above \<open>-0.79\<close>), while the taper
  just below it tends to \<open>-CL_MAX_NEG = -0.9\<close> and is below \<open>-0.89\<close> at -10.0001 degrees:
  the two branches differ by more than \<open>0.1\<close> and the function is not continuous there.
\<close>

theorem calculateCL_stall_boundaries:
  "isCont calculateCL STALL_ALPHA_POS \<and>
   calculateCL STALL_ALPHA_NEG = - (11 * pi / 45) \<and>
   STALL_ALPHA_NEG = - 10 * (pi / 180) \<and>
   calculateCL (- 10 * (pi / 180)) > - (79 / 100) \<and>
   calculateCL (- 10.0001 * (pi / 180)) < - (89 / 100) \<and>
   (calculateCL \<longlongrightarrow> - CL_MAX_NEG) (at_left STALL_ALPHA_NEG) \<and>
   - (11 * pi / 45) - (- CL_MAX_NEG) > 1 / 10 \<and>
   \<not> isCont calculateCL STALL_ALPHA_NEG"
proof -
  have "calculateCL (- 10 * (pi / 180)) > - (79 / 100)"
    using calculateCL_at_neg_stall pi_upper by (simp add: STALL_ALPHA_NEG_def)
  moreover have "STALL_ALPHA_NEG = - 10 * (pi / 180)" by (simp add: STALL_ALPHA_NEG_def)
  ultimately show ?thesis
    using calculateCL_cont_pos_stall calculateCL_at_neg_stall calculateCL_left_limit_neg_stall
      calculateCL_gap_neg_stall calculateCL_not_cont_neg_stall calculateCL_just_below_neg_stall
    by blast
qed

section \<open>Telemetry\<close>

lemma vec3_sel [simp]:
  "vx (Vector3 a b c) = a" "vy (Vector3 a b c) = b" "vz (Vector3 a b c) = c"
  by (simp_all add: Vector3_def)

lemma quat_sel [simp]:
  "qx (Quaternion a b c d) = a" "qy (Quaternion a b c d) = b"
  "qz (Quaternion a b c d) = c" "qw (Quaternion a b c d) = d"
  by (simp_all add: Quaternion_def)

lemma identity_axes:
  "getForwardVector identityQuaternion = Vector3 0 0 1"
  "getUpVector identityQuaternion = Vector3 0 1 0"
  "getRightVector identityQuaternion = Vector3 1 0 0"
  by (simp_all add: getForwardVector_def getUpVector_def getRightVector_def
      applyQuaternion_def identityQuaternion_def)

lemma vlength_zero [simp]: "vlength (Vector3 0 0 0) = 0"
  by (simp add: vlength_def)

lemma vlength_axis:
  "vlength (Vector3 a 0 0) = \<bar>a\<bar>" "vlength (Vector3 0 a 0) = \<bar>a\<bar>" "vlength (Vector3 0 0 a) = \<bar>a\<bar>"
  by (simp_all add: vlength_def)

lemma windVector_calm [simp]: "windVector calmWind = Vector3 0 0 0"
  by (simp add: windVector_def calmWind_def Vector3_def)

lemma vsub_zero [simp]: "vsub (Vector3 a b c) (Vector3 0 0 0) = Vector3 a b c"
  by (simp add: vsub_def)

lemma atan2_sin_cos:
  assumes "- (pi / 2) < a" "a < pi / 2"
  shows "atan2 (sin a) (cos a) = a"
proof -
  have "0 < cos a" using assms by (rule cos_gt_zero_pi)
  then have "atan2 (sin a) (cos a) = arctan (tan a)" by (simp add: atan2_def tan_def)
  then show ?thesis using assms by (simp add: arctan_tan)
qed

lemma calculateAngleOfAttack_example:
  assumes "- (pi / 2) < a" "a < pi / 2"
  shows "calculateAngleOfAttack (Vector3 0 (- sin a) (cos a)) identityQuaternion = a"
proof -
  have len: "vlength (Vector3 0 (- sin a) (cos a)) = 1"
    by (simp add: vlength_def power2_eq_square[symmetric])
  have nrm: "vnormalize (Vector3 0 (- sin a) (cos a)) = Vector3 0 (- sin a) (cos a)"
    by (simp add: vnormalize_def len divideScalar_def multiplyScalar_def)
  show ?thesis
    using atan2_sin_cos[OF assms]
    by (simp add: calculateAngleOfAttack_def Let_def len nrm identity_axes dot_def)
qed

lemma telemetry_alpha:
  "angleOfAttack (getTelemetry state windField) =
     calculateAngleOfAttack (vsub (velocity state) (windVector windField)) (quaternion state) * (180 / pi)"
  "isStalling (getTelemetry state windField) =
     (calculateAngleOfAttack (vsub (velocity state) (windVector windField)) (quaternion state) > STALL_ALPHA_POS
      \<or> calculateAngleOfAttack (vsub (velocity state) (windVector windField)) (quaternion state) < STALL_ALPHA_NEG)"
  "airspeed (getTelemetry state windField) = vlength (vsub (velocity state) (windVector windField))"
  by (simp_all add: getTelemetry_def Let_def)

lemma degrees_gt: "a * (180 / pi) > d \<longleftrightarrow> a > d * (pi / 180)"
  using pi_gt_zero by (simp add: field_simps)

lemma degrees_lt: "a * (180 / pi) < d \<longleftrightarrow> a < d * (pi / 180)"
  using pi_gt_zero by (simp add: field_simps)

text \<open>
  C8. The telemetry reports a stall exactly when the reported angle of attack (in degrees)
  is greater than 12 or less than -10; the reported angle is the angle of attack of the
  air-relative velocity. So 12.0001 degrees is a stall and 11.99 degrees is not, and
  -10.0001 degrees is a stall and -9.99 degrees is not.
\<close>

theorem getTelemetry_isStalling:
  "(isStalling (getTelemetry state windField) \<longleftrightarrow>
      angleOfAttack (getTelemetry state windField) > 12
      \<or> angleOfAttack (getTelemetry state windField) < - 10) \<and>
   angleOfAttack (getTelemetry state windField) =
      calculateAngleOfAttack (vsub (velocity state) (windVector windField)) (quaternion state)
        * (180 / pi) \<and>
   (angleOfAttack (getTelemetry state windField) = 12.0001 \<longrightarrow>
      isStalling (getTelemetry state windField)) \<and>
   (angleOfAttack (getTelemetry state windField) = 11.99 \<longrightarrow>
      \<not> isStalling (getTelemetry state windField)) \<and>
   (angleOfAttack (getTelemetry state windField) = - 10.0001 \<longrightarrow>
      isStalling (getTelemetry state windField)) \<and>
   (angleOfAttack (getTelemetry state windField) = - 9.99 \<longrightarrow>
      \<not> isStalling (getTelemetry state windField))"
proof -
  have iff: "isStalling (getTelemetry state windField) \<longleftrightarrow>
      angleOfAttack (getTelemetry state windField) > 12
      \<or> angleOfAttack (getTelemetry state windField) < - 10"
    unfolding telemetry_alpha degrees_gt degrees_lt
    by (simp add: STALL_ALPHA_POS_def STALL_ALPHA_NEG_def)
  show ?thesis using iff telemetry_alpha(1)[of state windField] by simp
qed

lemma telemetryExample_angle:
  assumes "- 90 < d" "d < 90"
  shows "angleOfAttack (getTelemetry (telemetryExample (d * (pi / 180))) calmWind) = d"
proof -
  have lo: "pi * (- 90) < pi * d"
    using assms(1) pi_gt_zero by (rule mult_strict_left_mono)
  have hi: "pi * d < pi * 90"
    using assms(2) pi_gt_zero by (rule mult_strict_left_mono)
  have "- (pi / 2) < d * (pi / 180)" "d * (pi / 180) < pi / 2"
    using lo hi by (simp_all add: mult.commute)
  then have "calculateAngleOfAttack (Vector3 0 (- sin (d * (pi / 180))) (cos (d * (pi / 180))))
      identityQuaternion = d * (pi / 180)"
    by (rule calculateAngleOfAttack_example)
  then show ?thesis
    by (simp add: telemetry_alpha telemetryExample_def)
qed

theorem getTelemetry_isStalling_witness:
  "angleOfAttack (getTelemetry (telemetryExample (12.0001 * (pi / 180))) calmWind) = 12.0001 \<and>
   isStalling (getTelemetry (telemetryExample (12.0001 * (pi / 180))) calmWind) \<and>
   angleOfAttack (getTelemetry (telemetryExample (11.99 * (pi / 180))) calmWind) = 11.99 \<and>
   \<not> isStalling (getTelemetry (telemetryExample (11.99 * (pi / 180))) calmWind) \<and>
   angleOfAttack (getTelemetry (telemetryExample (- 10.0001 * (pi / 180))) calmWind) = - 10.0001 \<and>
   isStalling (getTelemetry (telemetryExample (- 10.0001 * (pi / 180))) calmWind) \<and>
   angleOfAttack (getTelemetry (telemetryExample (- 9.99 * (pi / 180))) calmWind) = - 9.99 \<and>
   \<not> isStalling (getTelemetry (telemetryExample (- 9.99 * (pi / 180))) calmWind)"
proof -
  have a: "angleOfAttack (getTelemetry (telemetryExample (12.0001 * (pi / 180))) calmWind) = 12.0001"
    by (rule telemetryExample_angle) simp_all
  have b: "angleOfAttack (getTelemetry (telemetryExample (11.99 * (pi / 180))) calmWind) = 11.99"
    by (rule telemetryExample_angle) simp_all
  have c: "angleOfAttack (getTelemetry (telemetryExample (- 10.0001 * (pi / 180))) calmWind) = - 10.0001"
    by (rule telemetryExample_angle) simp_all
  have d: "angleOfAttack (getTelemetry (telemetryExample (- 9.99 * (pi / 180))) calmWind) = - 9.99"
    by (rule telemetryExample_angle) simp_all
  show ?thesis
    using a b c d
      getTelemetry_isStalling[of "telemetryExample (12.0001 * (pi / 180))" calmWind]
      getTelemetry_isStalling[of "telemetryExample (11.99 * (pi / 180))" calmWind]
      getTelemetry_isStalling[of "telemetryExample (- 10.0001 * (pi / 180))" calmWind]
      getTelemetry_isStalling[of "telemetryExample (- 9.99 * (pi / 180))" calmWind]
    by blast
qed

section \<open>Angle of attack and weathervane\<close>

lemma calculateAngleOfAttack_slow:
  "vlength v < 0.1 \<Longrightarrow> calculateAngleOfAttack v q = 0"
  by (simp add: calculateAngleOfAttack_def Let_def)

lemma calculateAngleOfAttack_fast:
  assumes "\<not> vlength v < 0.1"
  shows "calculateAngleOfAttack v q =
     atan2 (- dot (divideScalar v (vlength v)) (getUpVector q))
           (dot (divideScalar v (vlength v)) (getForwardVector q))"
proof -
  have "vlength v \<noteq> 0" using assms by auto
  then show ?thesis using assms by (simp add: calculateAngleOfAttack_def Let_def vnormalize_def)
qed

text \<open>
  C10. The angle of attack of a velocity slower than 0.1 m/s is 0; for any other velocity
  the normalisation divides by the velocity's own length, which is at least 0.1. So a
  telemetry whose air-relative speed is below 0.1 m/s reports angle of attack 0 and no
  stall.
\<close>

theorem calculateAngleOfAttack_near_zero:
  "(vlength v < 0.1 \<longrightarrow> calculateAngleOfAttack v q = 0) \<and>
   (\<not> vlength v < 0.1 \<longrightarrow>
      vnormalize v = divideScalar v (vlength v) \<and>
      calculateAngleOfAttack v q =
        atan2 (- dot (divideScalar v (vlength v)) (getUpVector q))
              (dot (divideScalar v (vlength v)) (getForwardVector q))) \<and>
   (airspeed (getTelemetry state windField) < 0.1 \<longrightarrow>
      angleOfAttack (getTelemetry state windField) = 0 \<and>
      \<not> isStalling (getTelemetry state windField))"
proof -
  have nrm: "vnormalize v = divideScalar v (vlength v)" if "\<not> vlength v < 0.1"
  proof -
    have "vlength v \<noteq> 0" using that by auto
    then show ?thesis by (simp add: vnormalize_def)
  qed
  have tel: "angleOfAttack (getTelemetry state windField) = 0 \<and>
      \<not> isStalling (getTelemetry state windField)"
    if "airspeed (getTelemetry state windField) < 0.1"
  proof -
    have "calculateAngleOfAttack (vsub (velocity state) (windVector windField)) (quaternion state) = 0"
      using that by (simp add: telemetry_alpha calculateAngleOfAttack_slow)
    then show ?thesis using stall_order by (simp add: telemetry_alpha)
  qed
  show ?thesis
    using calculateAngleOfAttack_slow[of v q] calculateAngleOfAttack_fast[of v q] nrm tel
    by blast
qed

theorem calculateAngleOfAttack_near_zero_witness:
  "vlength (Vector3 0 0 0) < 0.1 \<and> calculateAngleOfAttack (Vector3 0 0 0) identityQuaternion = 0 \<and>
   \<not> vlength (Vector3 0 0 1) < 0.1 \<and>
   vnormalize (Vector3 0 0 1) = divideScalar (Vector3 0 0 1) (vlength (Vector3 0 0 1)) \<and>
   airspeed (getTelemetry restState calmWind) < 0.1 \<and>
   angleOfAttack (getTelemetry restState calmWind) = 0 \<and>
   \<not> isStalling (getTelemetry restState calmWind)"
proof -
  have a: "vlength (Vector3 0 0 0) < 0.1" by simp
  have b: "\<not> vlength (Vector3 0 0 1) < 0.1" by (simp add: vlength_axis)
  have c: "airspeed (getTelemetry restState calmWind) < 0.1"
    by (simp add: telemetry_alpha restState_def)
  show ?thesis
    using a b c
      calculateAngleOfAttack_near_zero[of "Vector3 0 0 0" identityQuaternion restState calmWind]
      calculateAngleOfAttack_near_zero[of "Vector3 0 0 1" identityQuaternion restState calmWind]
    by blast
qed

text \<open>
  C6. The weathervane correction returns the angular velocity unchanged when the speed
  (the length of the velocity it is given) is below 5 m/s or the sideslip, the normalised
  velocity projected on the body's right axis, is below 0.01 in magnitude. Otherwise only
  the yaw rate changes: it moves towards
  \<open>- sideslip * WEATHERVANE_STRENGTH * min 1 (speed / 30)\<close> by the fraction \<open>dt * 3\<close>
  of the difference.
\<close>

theorem applyWeathervane_cases:
  "(vlength v < 5 \<or> \<bar>dot (vnormalize v) (getRightVector q)\<bar> < 0.01 \<longrightarrow>
      applyWeathervane w v q deltaTime = w) \<and>
   (\<not> (vlength v < 5 \<or> \<bar>dot (vnormalize v) (getRightVector q)\<bar> < 0.01) \<longrightarrow>
      applyWeathervane w v q deltaTime =
        w\<lparr>vy := vy w +
               (- dot (vnormalize v) (getRightVector q) * WEATHERVANE_STRENGTH
                  * min 1 (vlength v / 30) - vy w) * deltaTime * 3\<rparr>)"
  by (simp add: applyWeathervane_def Let_def)

theorem applyWeathervane_cases_witness:
  "vlength (Vector3 0 0 3) < 5 \<and>
   applyWeathervane (Vector3 0 1 0) (Vector3 0 0 3) identityQuaternion (1 / 20) = Vector3 0 1 0 \<and>
   \<bar>dot (vnormalize (Vector3 0 0 30)) (getRightVector identityQuaternion)\<bar> < 0.01 \<and>
   applyWeathervane (Vector3 0 1 0) (Vector3 0 0 30) identityQuaternion (1 / 20) = Vector3 0 1 0 \<and>
   \<not> (vlength (Vector3 15 0 0) < 5
       \<or> \<bar>dot (vnormalize (Vector3 15 0 0)) (getRightVector identityQuaternion)\<bar> < 0.01) \<and>
   applyWeathervane (Vector3 0 1 0) (Vector3 15 0 0) identityQuaternion (1 / 20)
     = Vector3 0 (1 + (- 1 * 0.3 * (1 / 2) - 1) * (1 / 20) * 3) 0"
proof -
  have a: "vlength (Vector3 0 0 3) < 5" by (simp add: vlength_axis)
  have n1: "vnormalize (Vector3 0 0 30) = Vector3 0 0 1"
    by (simp add: vnormalize_def vlength_axis divideScalar_def multiplyScalar_def)
  have b: "\<bar>dot (vnormalize (Vector3 0 0 30)) (getRightVector identityQuaternion)\<bar> < 0.01"
    by (simp add: n1 identity_axes dot_def)
  have n2: "vnormalize (Vector3 15 0 0) = Vector3 1 0 0"
    by (simp add: vnormalize_def vlength_axis divideScalar_def multiplyScalar_def)
  have s2: "dot (vnormalize (Vector3 15 0 0)) (getRightVector identityQuaternion) = 1"
    by (simp add: n2 identity_axes dot_def)
  have c: "\<not> (vlength (Vector3 15 0 0) < 5
       \<or> \<bar>dot (vnormalize (Vector3 15 0 0)) (getRightVector identityQuaternion)\<bar> < 0.01)"
    by (simp add: s2 vlength_axis)
  have r1: "applyWeathervane (Vector3 0 1 0) (Vector3 0 0 3) identityQuaternion (1 / 20) = Vector3 0 1 0"
    using a applyWeathervane_cases[of "Vector3 0 0 3" identityQuaternion "Vector3 0 1 0" "1 / 20"]
    by blast
  have r2: "applyWeathervane (Vector3 0 1 0) (Vector3 0 0 30) identityQuaternion (1 / 20) = Vector3 0 1 0"
    using b applyWeathervane_cases[of "Vector3 0 0 30" identityQuaternion "Vector3 0 1 0" "1 / 20"]
    by blast
  have "applyWeathervane (Vector3 0 1 0) (Vector3 15 0 0) identityQuaternion (1 / 20)
      = (Vector3 0 1 0)\<lparr>vy := vy (Vector3 0 1 0) +
               (- dot (vnormalize (Vector3 15 0 0)) (getRightVector identityQuaternion)
                  * WEATHERVANE_STRENGTH * min 1 (vlength (Vector3 15 0 0) / 30)
                - vy (Vector3 0 1 0)) * (1 / 20) * 3\<rparr>"
    using c applyWeathervane_cases[of "Vector3 15 0 0" identityQuaternion "Vector3 0 1 0" "1 / 20"]
    by blast
  then have r3: "applyWeathervane (Vector3 0 1 0) (Vector3 15 0 0) identityQuaternion (1 / 20)
     = Vector3 0 (1 + (- 1 * 0.3 * (1 / 2) - 1) * (1 / 20) * 3) 0"
    unfolding s2 vlength_axis by (simp add: WEATHERVANE_STRENGTH_def Vector3_def)
  show ?thesis using a b c r1 r2 r3 by blast
qed

section \<open>The physics step\<close>

lemma updatePhysics_fields:
  "position (updatePhysics state controls windField deltaTime) =
     fst (groundCollision
       (integratePosition state (integrateVelocity state windField (min deltaTime 0.05)) (min deltaTime 0.05))
       (integrateVelocity state windField (min deltaTime 0.05)))"
  "velocity (updatePhysics state controls windField deltaTime) =
     snd (groundCollision
       (integratePosition state (integrateVelocity state windField (min deltaTime 0.05)) (min deltaTime 0.05))
       (integrateVelocity state windField (min deltaTime 0.05)))"
  "angularVelocity (updatePhysics state controls windField deltaTime) =
     stallNoseDrop (stepAlpha state windField) (min deltaTime 0.05)
       (pitchStability (stepAlpha state windField) controls (min deltaTime 0.05)
         (controlledAngularVelocity state controls
            (integrateVelocity state windField (min deltaTime 0.05)) (min deltaTime 0.05)))"
  "quaternion (updatePhysics state controls windField deltaTime) =
     updateOrientation (quaternion state)
       (angularVelocity (updatePhysics state controls windField deltaTime)) (min deltaTime 0.05)"
  by (simp_all add: updatePhysics_def Let_def)

lemma calculateAeroForces_still:
  assumes "vlength (vsub v (windVector windField)) < 0.5"
  shows "calculateAeroForces v q windField =
     \<lparr>lift = Vector3 0 0 0, drag = Vector3 0 0 0, sideForce = Vector3 0 0 0\<rparr>"
  using assms by (simp add: calculateAeroForces_def Let_def)

lemma integrateVelocity_still:
  assumes "vlength (vsub (velocity state) (windVector windField)) < 0.5"
  shows "integrateVelocity state windField dt =
     Vector3 (vx (velocity state)) (vy (velocity state) - GRAVITY * dt) (vz (velocity state))"
  by (simp add: integrateVelocity_def Let_def calculateAeroForces_still[OF assms] vadd_def
      divideScalar_def multiplyScalar_def MASS_def)

lemma diveExample_air: "vsub (velocity (diveExample v)) (windVector sinkingAir) = Vector3 0 0 v"
  by (simp add: diveExample_def sinkingAir_def windVector_def vsub_def Vector3_def)

lemma calculateCL_zero: "calculateCL 0 = 11 * pi / 180"
proof -
  have "calculateCL 0 = max (- CL_MAX_NEG) (min CL_MAX (CL_ALPHA * (0 - ALPHA_0)))"
    using stall_order by (intro calculateCL_linear) auto
  also have "CL_ALPHA * (0 - ALPHA_0) = 11 * pi / 180"
    by (simp add: CL_ALPHA_def ALPHA_0_def)
  also have "max (- CL_MAX_NEG) (min CL_MAX (11 * pi / 180)) = 11 * pi / 180"
    using pi_upper pi_lower by (simp add: CL_MAX_NEG_def CL_MAX_def max_def min_def)
  finally show ?thesis .
qed

lemma forward_flow:
  assumes "1 / 2 \<le> v"
  shows "vlength (Vector3 0 0 v) = v" "vnormalize (Vector3 0 0 v) = Vector3 0 0 1"
    "calculateAngleOfAttack (Vector3 0 0 v) identityQuaternion = 0"
proof -
  show len: "vlength (Vector3 0 0 v) = v" using assms by (simp add: vlength_axis)
  show nrm: "vnormalize (Vector3 0 0 v) = Vector3 0 0 1"
    using assms by (simp add: vnormalize_def len divideScalar_def multiplyScalar_def)
  show "calculateAngleOfAttack (Vector3 0 0 v) identityQuaternion = 0"
    using assms by (simp add: calculateAngleOfAttack_def Let_def len nrm identity_axes dot_def atan2_def)
qed

lemma forward_flow_forces:
  assumes "1 / 2 \<le> v"
  shows "calculateAeroForces (velocity (diveExample v)) identityQuaternion sinkingAir =
     \<lparr>lift = Vector3 0 (0.5 * RHO * v * v * WING_AREA_S * (11 * pi / 180)) 0,
      drag = Vector3 0 0 (- (0.5 * RHO * v * v * WING_AREA_S * calculateCD (11 * pi / 180))),
      sideForce = Vector3 0 0 0\<rparr>"
proof -
  have fast: "\<not> v < 0.5" using assms by simp
  have crs: "cross (Vector3 0 0 1) (Vector3 1 0 0) = Vector3 0 1 0"
    by (simp add: cross_def)
  have n1: "vnormalize (Vector3 0 1 0) = Vector3 0 1 0"
    by (simp add: vnormalize_def vlength_axis divideScalar_def multiplyScalar_def)
  have side: "dot (Vector3 0 0 v) (Vector3 1 0 0) = 0" by (simp add: dot_def)
  show ?thesis
    unfolding calculateAeroForces_def Let_def diveExample_air forward_flow[OF assms]
      calculateCL_zero identity_axes crs n1 side
    using fast by (simp add: multiplyScalar_def negate_def)
qed

lemma diveExample_velocity:
  assumes "1 / 2 \<le> v"
  shows "integrateVelocity (diveExample v) sinkingAir (1 / 20) =
     Vector3 0 (- 5 + (- 981 / 100 + 49 * v * v * (11 * pi / 180) / 2100) * (1 / 20))
       (v - 49 * v * v * calculateCD (11 * pi / 180) / 2100 * (1 / 20))"
proof -
  have q: "quaternion (diveExample v) = identityQuaternion" by (simp add: diveExample_def)
  have vel: "velocity (diveExample v) = Vector3 0 (- 5) v" by (simp add: diveExample_def)
  show ?thesis
    unfolding integrateVelocity_def Let_def q forward_flow_forces[OF assms]
    by (simp add: vel vadd_def divideScalar_def multiplyScalar_def MASS_def GRAVITY_def RHO_def
        WING_AREA_S_def Vector3_def)
qed

text \<open>
  C5, as stated, fails in its scenario. A glider at altitude 3 m with velocity
  \<open>(0, -5, 200)\<close>, level, in air sinking at 5 m/s, meets the air head-on at 200 m/s; in
  one step of 0.05 s the lift turns the vertical velocity positive, so the step clamps
  the altitude to 5 m but neither zeroes the vertical velocity nor scales the horizontal
  one. And at 30 m/s, where the vertical velocity does stay negative, the returned
  forward velocity is 0.98 times the velocity after integration, which drag has reduced:
  it is less than 0.98 times the state's 30 m/s.
\<close>

theorem updatePhysics_ground_contact_counterexample:
  "vy (position (diveExample 200)) = 3 \<and> vy (velocity (diveExample 200)) = - 5 \<and>
   vy (position (updatePhysics (diveExample 200) neutralControls sinkingAir (1 / 20))) = 5 \<and>
   vy (velocity (updatePhysics (diveExample 200) neutralControls sinkingAir (1 / 20))) > 3 \<and>
   vz (velocity (updatePhysics (diveExample 200) neutralControls sinkingAir (1 / 20)))
     = vz (integrateVelocity (diveExample 200) sinkingAir (1 / 20)) \<and>
   vy (position (diveExample 30)) = 3 \<and> vy (velocity (diveExample 30)) = - 5 \<and>
   vz (velocity (diveExample 30)) = 30 \<and>
   vy (position (updatePhysics (diveExample 30) neutralControls sinkingAir (1 / 20))) = 5 \<and>
   vy (velocity (updatePhysics (diveExample 30) neutralControls sinkingAir (1 / 20))) = 0 \<and>
   vz (velocity (updatePhysics (diveExample 30) neutralControls sinkingAir (1 / 20))) < 30 * 0.98"
proof -
  have m: "min (1 / 20) (0.05 :: real) = 1 / 20" by simp
  have cd: "0 < calculateCD (11 * pi / 180)"
    by (simp add: calculateCD_def CD_0_def K_DRAG_def add_pos_nonneg)
  have v200: "integrateVelocity (diveExample 200) sinkingAir (1 / 20) =
     Vector3 0 (- 5 + (- 981 / 100 + 49 * 200 * 200 * (11 * pi / 180) / 2100) * (1 / 20))
       (200 - 49 * 200 * 200 * calculateCD (11 * pi / 180) / 2100 * (1 / 20))"
    by (rule diveExample_velocity) simp
  have v30: "integrateVelocity (diveExample 30) sinkingAir (1 / 20) =
     Vector3 0 (- 5 + (- 981 / 100 + 49 * 30 * 30 * (11 * pi / 180) / 2100) * (1 / 20))
       (30 - 49 * 30 * 30 * calculateCD (11 * pi / 180) / 2100 * (1 / 20))"
    by (rule diveExample_velocity) simp
  have up: "(3::real) < - 5 + (- 981 / 100 + 49 * 200 * 200 * (11 * pi / 180) / 2100) * (1 / 20)"
    using pi_lower by simp
  have upb: "- 5 + (- 981 / 100 + 49 * 200 * 200 * (11 * pi / 180) / 2100) * (1 / 20) < (4::real)"
    using pi_upper by simp
  have down: "- 5 + (- 981 / 100 + 49 * 30 * 30 * (11 * pi / 180) / 2100) * (1 / 20) < (0::real)"
    using pi_upper by simp
  have p200: "position (diveExample 200) = Vector3 0 3 0" and p30: "position (diveExample 30) = Vector3 0 3 0"
    by (simp_all add: diveExample_def)
  have a: "vy (position (updatePhysics (diveExample 200) neutralControls sinkingAir (1 / 20))) = 5"
    "vy (velocity (updatePhysics (diveExample 200) neutralControls sinkingAir (1 / 20))) > 3"
    "vz (velocity (updatePhysics (diveExample 200) neutralControls sinkingAir (1 / 20)))
       = vz (integrateVelocity (diveExample 200) sinkingAir (1 / 20))"
    unfolding updatePhysics_fields m v200 integratePosition_def p200
    using up upb by (simp_all add: groundCollision_def vadd_def multiplyScalar_def)
  have b: "vy (position (updatePhysics (diveExample 30) neutralControls sinkingAir (1 / 20))) = 5"
    "vy (velocity (updatePhysics (diveExample 30) neutralControls sinkingAir (1 / 20))) = 0"
    "vz (velocity (updatePhysics (diveExample 30) neutralControls sinkingAir (1 / 20))) < 30 * 0.98"
    unfolding updatePhysics_fields m v30 integratePosition_def p30
    using down cd by (simp_all add: groundCollision_def vadd_def multiplyScalar_def)
  show ?thesis
    using a b by (simp add: diveExample_def)
qed

text \<open>
  C5, amended. When the altitude after the position integration is below 5 m, the returned
  altitude is exactly 5 m; if moreover the vertical velocity after the velocity
  integration is negative, the returned vertical velocity is 0 and the returned horizontal
  velocity components are those after integration times 0.98. In particular, for a state
  at altitude 3 m with vertical velocity -5 m/s and a non-negative timestep: whenever the
  vertical velocity is still negative after the velocity integration, the step returns
  altitude 5, vertical velocity 0 and the horizontal velocity after integration times
  0.98.
\<close>

theorem updatePhysics_ground_contact:
  "(vy (integratePosition state (integrateVelocity state windField (min deltaTime 0.05))
          (min deltaTime 0.05)) < 5 \<longrightarrow>
      vy (position (updatePhysics state controls windField deltaTime)) = 5 \<and>
      (vy (integrateVelocity state windField (min deltaTime 0.05)) < 0 \<longrightarrow>
         vy (velocity (updatePhysics state controls windField deltaTime)) = 0 \<and>
         vx (velocity (updatePhysics state controls windField deltaTime))
           = vx (integrateVelocity state windField (min deltaTime 0.05)) * 0.98 \<and>
         vz (velocity (updatePhysics state controls windField deltaTime))
           = vz (integrateVelocity state windField (min deltaTime 0.05)) * 0.98)) \<and>
   (vy (position state) = 3 \<and> vy (velocity state) = - 5 \<and> 0 \<le> deltaTime \<and>
    vy (integrateVelocity state windField (min deltaTime 0.05)) < 0 \<longrightarrow>
      vy (position (updatePhysics state controls windField deltaTime)) = 5 \<and>
      vy (velocity (updatePhysics state controls windField deltaTime)) = 0 \<and>
      vx (velocity (updatePhysics state controls windField deltaTime))
        = vx (integrateVelocity state windField (min deltaTime 0.05)) * 0.98 \<and>
      vz (velocity (updatePhysics state controls windField deltaTime))
        = vz (integrateVelocity state windField (min deltaTime 0.05)) * 0.98)"
proof -
  define dt where "dt = min deltaTime 0.05"
  define nv where "nv = integrateVelocity state windField dt"
  have general: "vy (position (updatePhysics state controls windField deltaTime)) = 5 \<and>
      (vy nv < 0 \<longrightarrow>
         vy (velocity (updatePhysics state controls windField deltaTime)) = 0 \<and>
         vx (velocity (updatePhysics state controls windField deltaTime)) = vx nv * 0.98 \<and>
         vz (velocity (updatePhysics state controls windField deltaTime)) = vz nv * 0.98)"
    if "vy (integratePosition state nv dt) < 5"
    using that by (simp add: updatePhysics_fields groundCollision_def nv_def dt_def)
  have below: "vy (integratePosition state nv dt) < 5"
    if "vy (position state) = 3" "0 \<le> deltaTime" "vy nv < 0"
  proof -
    have "0 \<le> dt" using that(2) by (simp add: dt_def)
    then have "vy nv * dt \<le> 0" using that(3) by (simp add: mult_le_0_iff)
    then show ?thesis using that(1)
      by (simp add: integratePosition_def vadd_def multiplyScalar_def)
  qed
  show ?thesis
    using general below unfolding nv_def dt_def by blast
qed

lemma groundExample_air: "vsub (velocity groundExample) (windVector followingWind) = Vector3 0 0 0"
  by (simp add: groundExample_def followingWind_def windVector_def vsub_def)

lemma groundExample_velocity:
  "integrateVelocity groundExample followingWind (1 / 20) = Vector3 3 (- 5 - 981 / 2000) 4"
proof -
  have "vlength (vsub (velocity groundExample) (windVector followingWind)) < 0.5"
    by (simp add: groundExample_air)
  then show ?thesis
    by (simp add: integrateVelocity_still groundExample_def GRAVITY_def)
qed

theorem updatePhysics_ground_contact_witness:
  "vy (position groundExample) = 3 \<and> vy (velocity groundExample) = - 5 \<and>
   vx (velocity groundExample) = 3 \<and> vz (velocity groundExample) = 4 \<and> (0::real) \<le> 1 / 20 \<and>
   vy (integratePosition groundExample (integrateVelocity groundExample followingWind (min (1 / 20) 0.05))
         (min (1 / 20) 0.05)) < 5 \<and>
   vy (integrateVelocity groundExample followingWind (min (1 / 20) 0.05)) < 0 \<and>
   vy (position (updatePhysics groundExample neutralControls followingWind (1 / 20))) = 5 \<and>
   vy (velocity (updatePhysics groundExample neutralControls followingWind (1 / 20))) = 0 \<and>
   vx (velocity (updatePhysics groundExample neutralControls followingWind (1 / 20))) = 3 * 0.98 \<and>
   vz (velocity (updatePhysics groundExample neutralControls followingWind (1 / 20))) = 4 * 0.98"
proof -
  have m: "min (1 / 20) (0.05 :: real) = 1 / 20" by simp
  have a: "vy (integratePosition groundExample
                 (integrateVelocity groundExample followingWind (min (1 / 20) 0.05))
                 (min (1 / 20) 0.05)) < 5"
    unfolding m groundExample_velocity
    by (simp add: integratePosition_def vadd_def multiplyScalar_def groundExample_def)
  have b: "vy (integrateVelocity groundExample followingWind (min (1 / 20) 0.05)) < 0"
    unfolding m groundExample_velocity by simp
  have c: "vx (integrateVelocity groundExample followingWind (min (1 / 20) 0.05)) = 3"
    "vz (integrateVelocity groundExample followingWind (min (1 / 20) 0.05)) = 4"
    unfolding m groundExample_velocity by simp_all
  have d: "vy (position groundExample) = 3 \<and> vy (velocity groundExample) = - 5 \<and>
      vx (velocity groundExample) = 3 \<and> vz (velocity groundExample) = 4"
    by (simp add: groundExample_def)
  have e: "vy (position (updatePhysics groundExample neutralControls followingWind (1 / 20))) = 5 \<and>
      vy (velocity (updatePhysics groundExample neutralControls followingWind (1 / 20))) = 0 \<and>
      vx (velocity (updatePhysics groundExample neutralControls followingWind (1 / 20)))
        = vx (integrateVelocity groundExample followingWind (min (1 / 20) 0.05)) * 0.98 \<and>
      vz (velocity (updatePhysics groundExample neutralControls followingWind (1 / 20)))
        = vz (integrateVelocity groundExample followingWind (min (1 / 20) 0.05)) * 0.98"
    using a b updatePhysics_ground_contact[of groundExample followingWind "1 / 20" neutralControls]
    by blast
  show ?thesis
    using a b d e unfolding c by simp
qed

lemma restState_air: "vsub (velocity restState) (windVector calmWind) = Vector3 0 0 0"
  by (simp add: restState_def)

lemma restState_velocity:
  "integrateVelocity restState calmWind (1 / 20) = Vector3 0 (- (981 / 2000)) 0"
proof -
  have "vlength (vsub (velocity restState) (windVector calmWind)) < 0.5"
    unfolding restState_air by simp
  then show ?thesis
    by (simp add: integrateVelocity_still restState_def GRAVITY_def)
qed

lemma restState_stepAlpha: "stepAlpha restState calmWind = 0"
  unfolding stepAlpha_def Let_def restState_air by (simp add: calculateAngleOfAttack_slow)

lemma restState_controlled:
  "controlledAngularVelocity restState neutralControls (Vector3 0 (- (981 / 2000)) 0) (1 / 20)
     = Vector3 0 0 0"
proof -
  have a: "applyControlInputs (Vector3 0 0 0) neutralControls (1 / 20) = Vector3 0 0 0"
    by (simp add: applyControlInputs_def Let_def neutralControls_def Vector3_def)
  have b: "applyDamping (Vector3 0 0 0) (1 / 20) = Vector3 0 0 0"
    by (simp add: applyDamping_def Vector3_def)
  have c: "applyWeathervane (Vector3 0 0 0) (Vector3 0 (- (981 / 2000)) 0) identityQuaternion (1 / 20)
      = Vector3 0 0 0"
    by (simp add: applyWeathervane_def Let_def vlength_axis)
  show ?thesis
    by (simp add: controlledAngularVelocity_def restState_def a b c)
qed

lemma restState_postIntegrationAlpha: "postIntegrationAlpha restState calmWind (1 / 20) = pi / 2"
proof -
  have len: "vlength (Vector3 0 (- (981 / 2000)) 0) = 981 / 2000"
    by (simp add: vlength_axis)
  have nrm: "vnormalize (Vector3 0 (- (981 / 2000)) 0) = Vector3 0 (- 1) 0"
    by (simp add: vnormalize_def len divideScalar_def multiplyScalar_def)
  have "calculateAngleOfAttack (Vector3 0 (- (981 / 2000)) 0) identityQuaternion = pi / 2"
    by (simp add: calculateAngleOfAttack_def Let_def len nrm identity_axes dot_def atan2_def)
  moreover have "min (1 / 20) (0.05 :: real) = 1 / 20" by simp
  moreover have "quaternion restState = identityQuaternion" by (simp add: restState_def)
  ultimately show ?thesis
    unfolding postIntegrationAlpha_def Let_def by (simp add: restState_velocity)
qed

text \<open>
  C4, as stated, fails on a glider at rest in calm air with neutral controls and a
  timestep of 0.05 s. After the velocity integration the glider falls straight down, so
  the angle of attack of the post-integration air-relative velocity is \<open>pi / 2\<close>; it is
  more than 2 degrees from the 4 degree target and the pilot's pitch input is 0, so the
  claimed correction would add \<open>(pi / 2 - 4 * (pi / 180)) * 0.5 * dt * 3\<close>, a positive
  amount, to the pitch rate 0. The step instead returns the pitch rate \<open>- (pi / 600)\<close>:
  it corrects with the angle of attack of the velocity it was called with, which is 0.
\<close>

theorem updatePhysics_pitch_stability_counterexample:
  "postIntegrationAlpha restState calmWind (1 / 20) = pi / 2 \<and>
   \<bar>pi / 2 - 4 * (pi / 180)\<bar> > 2 * (pi / 180) \<and> \<bar>pitch neutralControls\<bar> < 0.3 \<and>
   vx (controlledAngularVelocity restState neutralControls
         (integrateVelocity restState calmWind (min (1 / 20) 0.05)) (min (1 / 20) 0.05)) = 0 \<and>
   vx (angularVelocity (updatePhysics restState neutralControls calmWind (1 / 20))) = - (pi / 600) \<and>
   vx (angularVelocity (updatePhysics restState neutralControls calmWind (1 / 20)))
     \<noteq> 0 + (postIntegrationAlpha restState calmWind (1 / 20) - 4 * (pi / 180)) * 0.5 * (1 / 20) * 3"
proof -
  have m: "min (1 / 20) (0.05 :: real) = 1 / 20" by simp
  have a: "\<bar>pi / 2 - 4 * (pi / 180)\<bar> > 2 * (pi / 180)"
    using pi_lower by simp
  have b: "\<bar>pitch neutralControls\<bar> < 0.3" by (simp add: neutralControls_def)
  have c: "vx (controlledAngularVelocity restState neutralControls
         (integrateVelocity restState calmWind (min (1 / 20) 0.05)) (min (1 / 20) 0.05)) = 0"
    unfolding m restState_velocity restState_controlled by simp
  have ps: "pitchStability 0 neutralControls (1 / 20) (Vector3 0 0 0) = Vector3 (- (pi / 600)) 0 0"
    using pi_lower by (simp add: pitchStability_def Let_def neutralControls_def Vector3_def)
  have sd: "stallNoseDrop 0 (1 / 20) (Vector3 (- (pi / 600)) 0 0) = Vector3 (- (pi / 600)) 0 0"
    using stall_order by (simp add: stallNoseDrop_def)
  have d: "vx (angularVelocity (updatePhysics restState neutralControls calmWind (1 / 20))) = - (pi / 600)"
    unfolding updatePhysics_fields m restState_velocity restState_controlled restState_stepAlpha ps sd
    by simp
  have e: "- (pi / 600) \<noteq> 0 + (pi / 2 - 4 * (pi / 180)) * 0.5 * (1 / 20) * 3"
    using pi_lower by simp
  show ?thesis
    using a b c d e by (simp add: restState_postIntegrationAlpha)
qed

text \<open>
  C4, amended. The angular velocity returned by the physics step is the result of the
  stall correction applied to the pitch-stability correction applied to the angular
  velocity after controls, damping and weathervane. Both corrections use the angle of
  attack of the air-relative velocity the step was called with (\<open>state.velocity\<close> minus
  the wind vector) and the current orientation. Whenever that angle is more than 2
  degrees from 4 degrees and the pilot's pitch input is below 0.3 in magnitude, the
  pitch-stability correction adds \<open>(alpha - 4 degrees) * 0.5 * dt * 3\<close> to the pitch rate;
  whenever either condition fails it leaves the angular velocity unchanged.
\<close>

theorem updatePhysics_pitch_stability:
  "angularVelocity (updatePhysics state controls windField deltaTime) =
     stallNoseDrop (stepAlpha state windField) (min deltaTime 0.05)
       (pitchStability (stepAlpha state windField) controls (min deltaTime 0.05)
         (controlledAngularVelocity state controls
            (integrateVelocity state windField (min deltaTime 0.05)) (min deltaTime 0.05))) \<and>
   stepAlpha state windField =
     calculateAngleOfAttack (vsub (velocity state) (windVector windField)) (quaternion state) \<and>
   (\<bar>alpha - 4 * (pi / 180)\<bar> > 2 * (pi / 180) \<and> \<bar>pitch controls\<bar> < 0.3 \<longrightarrow>
      pitchStability alpha controls dt w = w\<lparr>vx := vx w + (alpha - 4 * (pi / 180)) * 0.5 * dt * 3\<rparr>) \<and>
   (\<not> (\<bar>alpha - 4 * (pi / 180)\<bar> > 2 * (pi / 180) \<and> \<bar>pitch controls\<bar> < 0.3) \<longrightarrow>
      pitchStability alpha controls dt w = w)"
proof -
  have "stepAlpha state windField =
     calculateAngleOfAttack (vsub (velocity state) (windVector windField)) (quaternion state)"
    by (simp add: stepAlpha_def Let_def)
  moreover have "\<bar>alpha - 4 * (pi / 180)\<bar> > 2 * (pi / 180) \<and> \<bar>pitch controls\<bar> < 0.3 \<longrightarrow>
      pitchStability alpha controls dt w = w\<lparr>vx := vx w + (alpha - 4 * (pi / 180)) * 0.5 * dt * 3\<rparr>"
    by (simp add: pitchStability_def Let_def)
  moreover have "\<not> (\<bar>alpha - 4 * (pi / 180)\<bar> > 2 * (pi / 180) \<and> \<bar>pitch controls\<bar> < 0.3) \<longrightarrow>
      pitchStability alpha controls dt w = w"
    by (simp add: pitchStability_def Let_def)
  ultimately show ?thesis
    using updatePhysics_fields(3)[of state controls windField deltaTime] by blast
qed

theorem updatePhysics_pitch_stability_witness:
  "stepAlpha restState calmWind = 0 \<and>
   \<bar>0 - 4 * (pi / 180)\<bar> > 2 * (pi / 180) \<and> \<bar>pitch neutralControls\<bar> < 0.3 \<and>
   pitchStability 0 neutralControls (1 / 20) (Vector3 0 0 0)
     = (Vector3 0 0 0)\<lparr>vx := vx (Vector3 0 0 0) + (0 - 4 * (pi / 180)) * 0.5 * (1 / 20) * 3\<rparr> \<and>
   \<not> (\<bar>5 * (pi / 180) - 4 * (pi / 180)\<bar> > 2 * (pi / 180) \<and> \<bar>pitch neutralControls\<bar> < 0.3) \<and>
   pitchStability (5 * (pi / 180)) neutralControls (1 / 20) (Vector3 0 0 0) = Vector3 0 0 0"
proof -
  have a: "\<bar>0 - 4 * (pi / 180)\<bar> > 2 * (pi / 180) \<and> \<bar>pitch neutralControls\<bar> < 0.3"
    using pi_lower by (simp add: neutralControls_def)
  have b: "\<not> (\<bar>5 * (pi / 180) - 4 * (pi / 180)\<bar> > 2 * (pi / 180) \<and> \<bar>pitch neutralControls\<bar> < 0.3)"
    using pi_lower by simp
  show ?thesis
    using a b restState_stepAlpha
      updatePhysics_pitch_stability[of restState neutralControls calmWind "1 / 20" 0 "1 / 20" "Vector3 0 0 0"]
      updatePhysics_pitch_stability[of restState neutralControls calmWind "1 / 20" "5 * (pi / 180)"
        "1 / 20" "Vector3 0 0 0"]
    by blast
qed

section \<open>The thermal system\<close>

lemma vec2_sel [simp]: "px (Vector2 a b) = a" "py (Vector2 a b) = b"
  by (simp_all add: Vector2_def)

lemma spawnThermals_full:
  "\<not> length ts < THERMAL_COUNT \<Longrightarrow> spawnThermals rnd ts i = (ts, i)"
  by simp

lemma spawnThermals_length:
  "length (fst (spawnThermals rnd ts i)) = max THERMAL_COUNT (length ts)"
proof (induction rnd ts i rule: spawnThermals.induct)
  case (1 rnd ts i)
  show ?case
  proof (cases "length ts < THERMAL_COUNT")
    case True
    have "length (fst (spawnThermals rnd ts i))
        = length (fst (spawnThermals rnd (ts @ [fst (createThermal rnd ts i)])
                         (snd (createThermal rnd ts i))))"
      using True by (subst spawnThermals.simps) simp
    also have "\<dots> = max THERMAL_COUNT (length (ts @ [fst (createThermal rnd ts i)]))"
      using True by (rule "1.IH")
    also have "\<dots> = max THERMAL_COUNT (length ts)"
      using True by simp
    finally show ?thesis .
  next
    case False
    then show ?thesis by (subst spawnThermals.simps) simp
  qed
qed

lemma spawnThermals_prefix:
  "\<exists>new. fst (spawnThermals rnd ts i) = ts @ new"
proof (induction rnd ts i rule: spawnThermals.induct)
  case (1 rnd ts i)
  show ?case
  proof (cases "length ts < THERMAL_COUNT")
    case True
    obtain new where "fst (spawnThermals rnd (ts @ [fst (createThermal rnd ts i)])
                         (snd (createThermal rnd ts i))) = (ts @ [fst (createThermal rnd ts i)]) @ new"
      using "1.IH"[OF True] by blast
    then have "fst (spawnThermals rnd ts i) = ts @ (fst (createThermal rnd ts i) # new)"
      using True by (subst spawnThermals.simps) simp
    then show ?thesis by blast
  next
    case False
    then have "fst (spawnThermals rnd ts i) = ts @ []" by (subst spawnThermals.simps) simp
    then show ?thesis by blast
  qed
qed

lemma driftThermals_length: "length (driftThermals dx dz dt ts) \<le> length ts"
  by (induction ts) (auto simp: Let_def le_SucI)

lemma driftThermals_map_filter:
  "driftThermals dx dz dt ts =
     map (\<lambda>t. t\<lparr>center := Vector2 (wrapCoordinate (px (center t) + dx))
                                   (wrapCoordinate (py (center t) + dz)),
                age := age t + dt\<rparr>)
       (filter (\<lambda>t. \<not> age t + dt > lifetime t) ts)"
  by (induction ts) (simp_all add: Let_def)

lemma updateThermalSystem_thermals:
  "thermals (fst (updateThermalSystem rnd i state deltaTime)) =
     fst (spawnThermals rnd
       (driftThermals (vx (wind state) * THERMAL_DRIFT_FACTOR * deltaTime)
          (vz (wind state) * THERMAL_DRIFT_FACTOR * deltaTime) deltaTime (thermals state)) i)"
  by (simp add: updateThermalSystem_def Let_def)

lemma updateThermalSystem_length:
  "length (thermals (fst (updateThermalSystem rnd i state deltaTime))) =
     max THERMAL_COUNT
       (length (driftThermals (vx (wind state) * THERMAL_DRIFT_FACTOR * deltaTime)
          (vz (wind state) * THERMAL_DRIFT_FACTOR * deltaTime) deltaTime (thermals state)))"
  by (simp only: updateThermalSystem_thermals spawnThermals_length)

lemma updateThermalSystem_fills:
  assumes "length (thermals state) \<le> THERMAL_COUNT"
  shows "length (thermals (fst (updateThermalSystem rnd i state deltaTime))) = THERMAL_COUNT"
proof -
  have "length (driftThermals (vx (wind state) * THERMAL_DRIFT_FACTOR * deltaTime)
          (vz (wind state) * THERMAL_DRIFT_FACTOR * deltaTime) deltaTime (thermals state))
      \<le> THERMAL_COUNT"
    using assms driftThermals_length le_trans by blast
  then show ?thesis by (simp add: updateThermalSystem_length)
qed

lemma runThermalUpdates_fills:
  "length (thermals state) \<le> THERMAL_COUNT \<Longrightarrow> dts \<noteq> [] \<Longrightarrow>
     length (thermals (runThermalUpdates rnd i state dts)) = THERMAL_COUNT"
proof (induction dts arbitrary: state i)
  case Nil
  then show ?case by simp
next
  case (Cons dt dts)
  have full: "length (thermals (fst (updateThermalSystem rnd i state dt))) = THERMAL_COUNT"
    using Cons.prems(1) by (rule updateThermalSystem_fills)
  show ?case
  proof (cases dts)
    case Nil
    then show ?thesis using full by simp
  next
    case (Cons d ds)
    then have "dts \<noteq> []" by simp
    moreover have "length (thermals (fst (updateThermalSystem rnd i state dt))) \<le> THERMAL_COUNT"
      using full by simp
    ultimately show ?thesis using Cons.IH by simp
  qed
qed

text \<open>
  C2, as stated, fails for a starting population larger than the target: 21 thermals
  that all survive the update are all kept, since the update only spawns thermals while
  the list is shorter than \<open>THERMAL_COUNT\<close> and never removes a living one.
\<close>

theorem updateThermalSystem_count_counterexample:
  "length (thermals crowdedSystem) = 21 \<and> (0::real) < 1 \<and>
   length (thermals (fst (updateThermalSystem zeroDraws 0 crowdedSystem 1))) = 21 \<and>
   length (thermals (fst (updateThermalSystem zeroDraws 0 crowdedSystem 1))) \<noteq> THERMAL_COUNT"
proof -
  have "driftThermals 0 0 1 (replicate n youngThermal)
      = replicate n (youngThermal\<lparr>center := Vector2 (wrapCoordinate 0) (wrapCoordinate 0), age := 1\<rparr>)" for n
    by (induction n) (simp_all add: Let_def youngThermal_def)
  then have "length (driftThermals 0 0 1 (replicate 21 youngThermal)) = 21" by simp
  then have "length (thermals (fst (updateThermalSystem zeroDraws 0 crowdedSystem 1))) = 21"
    by (simp add: updateThermalSystem_length crowdedSystem_def THERMAL_COUNT_def)
  then show ?thesis by (simp add: crowdedSystem_def THERMAL_COUNT_def)
qed

text \<open>
  C2, amended. After one update the number of thermals is the larger of \<open>THERMAL_COUNT\<close>
  (which is 20) and the number of thermals that survived the update. So for every
  starting population of at most \<open>THERMAL_COUNT\<close> thermals and every non-empty sequence of
  updates, with any timesteps, the number of thermals after the sequence, hence after
  each update of it, is \<open>THERMAL_COUNT\<close>.
\<close>

theorem updateThermalSystem_count:
  "THERMAL_COUNT = 20 \<and>
   length (thermals (fst (updateThermalSystem rnd i state deltaTime))) =
     max THERMAL_COUNT
       (length (filter (\<lambda>t. \<not> age t + deltaTime > lifetime t) (thermals state))) \<and>
   (length (thermals state) \<le> THERMAL_COUNT \<and> dts \<noteq> [] \<longrightarrow>
      length (thermals (runThermalUpdates rnd i state dts)) = THERMAL_COUNT)"
proof -
  have "length (thermals (fst (updateThermalSystem rnd i state deltaTime))) =
     max THERMAL_COUNT
       (length (filter (\<lambda>t. \<not> age t + deltaTime > lifetime t) (thermals state)))"
    by (simp add: updateThermalSystem_length driftThermals_map_filter)
  then show ?thesis
    using runThermalUpdates_fills[of state dts rnd i] by (simp add: THERMAL_COUNT_def)
qed

theorem updateThermalSystem_count_witness:
  "length (thermals emptySystem) \<le> THERMAL_COUNT \<and> [1, 2 :: real] \<noteq> [] \<and>
   length (thermals (runThermalUpdates zeroDraws 0 emptySystem [1, 2])) = THERMAL_COUNT"
proof -
  have a: "length (thermals emptySystem) \<le> THERMAL_COUNT"
    by (simp add: emptySystem_def)
  have b: "[1, 2 :: real] \<noteq> []" by simp
  show ?thesis
    using a b updateThermalSystem_count[of zeroDraws 0 emptySystem 1 "[1, 2]"] by blast
qed

lemma wrapCoordinate_cases:
  "wrapCoordinate c =
     (if c > WORLD_SIZE / 2 then c - WORLD_SIZE
      else if c < - (WORLD_SIZE / 2) then c + WORLD_SIZE else c)"
  by (simp add: wrapCoordinate_def Let_def WORLD_SIZE_def)

text \<open>
  C7. After an update the thermal list starts with the surviving thermals, in order, each
  with its center moved by \<open>wind * THERMAL_DRIFT_FACTOR * deltaTime\<close> (the wind's \<open>x\<close> on
  the center's first coordinate, the wind's \<open>z\<close> on its second) and then wrapped on both
  coordinates; newly spawned thermals follow. Wrapping reduces a coordinate above half the
  world size by the world size and increases one below minus half the world size by it.
  Half the world size is 5000, and 5001 wraps to -4999.
\<close>

theorem updateThermalSystem_drift_wrap:
  "(\<exists>new. thermals (fst (updateThermalSystem rnd i state deltaTime)) =
      map (\<lambda>t. t\<lparr>center :=
                    Vector2 (wrapCoordinate (px (center t) + vx (wind state) * THERMAL_DRIFT_FACTOR * deltaTime))
                            (wrapCoordinate (py (center t) + vz (wind state) * THERMAL_DRIFT_FACTOR * deltaTime)),
                  age := age t + deltaTime\<rparr>)
        (filter (\<lambda>t. \<not> age t + deltaTime > lifetime t) (thermals state)) @ new) \<and>
   wrapCoordinate c =
     (if c > WORLD_SIZE / 2 then c - WORLD_SIZE
      else if c < - (WORLD_SIZE / 2) then c + WORLD_SIZE else c) \<and>
   WORLD_SIZE / 2 = 5000 \<and> wrapCoordinate 5001 = - 4999"
proof -
  have "\<exists>new. thermals (fst (updateThermalSystem rnd i state deltaTime)) =
      driftThermals (vx (wind state) * THERMAL_DRIFT_FACTOR * deltaTime)
        (vz (wind state) * THERMAL_DRIFT_FACTOR * deltaTime) deltaTime (thermals state) @ new"
    unfolding updateThermalSystem_thermals by (rule spawnThermals_prefix)
  moreover have "WORLD_SIZE / 2 = 5000" by (simp add: WORLD_SIZE_def)
  moreover have "wrapCoordinate 5001 = - 4999"
    by (simp add: wrapCoordinate_cases WORLD_SIZE_def)
  ultimately show ?thesis
    using wrapCoordinate_cases[of c] by (simp only: driftThermals_map_filter)
qed

theorem updateThermalSystem_drift_wrap_witness:
  "px (center edgeThermal) + vx (wind windySystem) * THERMAL_DRIFT_FACTOR * 1 = 5001 \<and>
   py (center edgeThermal) + vz (wind windySystem) * THERMAL_DRIFT_FACTOR * 1 = - 5001 \<and>
   (\<exists>new. thermals (fst (updateThermalSystem zeroDraws 0 windySystem 1)) =
      edgeThermal\<lparr>center := Vector2 (- 4999) 4999, age := 1\<rparr> # new)"
proof -
  have a: "px (center edgeThermal) + vx (wind windySystem) * THERMAL_DRIFT_FACTOR * 1 = 5001"
    "py (center edgeThermal) + vz (wind windySystem) * THERMAL_DRIFT_FACTOR * 1 = - 5001"
    by (simp_all add: edgeThermal_def windySystem_def THERMAL_DRIFT_FACTOR_def)
  have w: "wrapCoordinate 5001 = - 4999" "wrapCoordinate (- 5001) = 4999"
    using updateThermalSystem_drift_wrap[of zeroDraws 0 windySystem 1 5001]
      updateThermalSystem_drift_wrap[of zeroDraws 0 windySystem 1 "- 5001"]
    by (simp_all add: WORLD_SIZE_def)
  have s: "filter (\<lambda>t. \<not> age t + 1 > lifetime t) (thermals windySystem) = [edgeThermal]"
    by (simp add: windySystem_def edgeThermal_def)
  obtain new where "thermals (fst (updateThermalSystem zeroDraws 0 windySystem 1)) =
      map (\<lambda>t. t\<lparr>center :=
                    Vector2 (wrapCoordinate (px (center t) + vx (wind windySystem) * THERMAL_DRIFT_FACTOR * 1))
                            (wrapCoordinate (py (center t) + vz (wind windySystem) * THERMAL_DRIFT_FACTOR * 1)),
                  age := age t + 1\<rparr>)
        (filter (\<lambda>t. \<not> age t + 1 > lifetime t) (thermals windySystem)) @ new"
    using updateThermalSystem_drift_wrap[of zeroDraws 0 windySystem 1 0] by blast
  then have "thermals (fst (updateThermalSystem zeroDraws 0 windySystem 1)) =
      edgeThermal\<lparr>center := Vector2 (- 4999) 4999, age := 1\<rparr> # new"
    unfolding s by (simp add: w edgeThermal_def windySystem_def THERMAL_DRIFT_FACTOR_def)
  then show ?thesis using a by blast
qed

end
